theory Spec2Isabelle
  imports Main "HOL-Library.Word"
begin

section \<open>Data model of the bot (main.go)\<close>

text \<open>
  Go errors. What the program does with an error is to test it against \<open>nil\<close>, to wrap it
  (\<open>fmt.Errorf("...: %w", err)\<close>) and to read its text (\<open>err.Error()\<close>).
  \<open>ErrNoRows\<close> is the error of \<open>database/sql\<close> for a query without a row.
\<close>

datatype error = ErrNoRows | ErrText string | Wrap string error

fun Error :: "error \<Rightarrow> string" where
  "Error ErrNoRows = ''sql: no rows in result set''"
| "Error (ErrText s) = s"
| "Error (Wrap prefix e) = prefix @ Error e"

type_synonym byte = "8 word"

record BotConfig =
  MaxWorkers :: int
  DbPath :: string
  BotEmail :: string
  TelegramToken :: string
  MaxFileSize :: int
  DownloadTimeout :: nat

text \<open>
  The Telegram types the handlers read. Pointer fields (\<open>*Message\<close>, \<open>*User\<close>,
  \<open>*Chat\<close>, \<open>*Document\<close>) are options: \<open>None\<close> is the nil pointer. The three
  methods \<open>IsCommand()\<close>, \<open>Command()\<close> and \<open>CommandArguments()\<close> of the Telegram
  library are functions of the message text and its entities; the message carries
  their results.
\<close>

record User =
  UserID :: int
  FirstName :: string

record Chat =
  ChatID :: int

record Document =
  FileID :: string
  FileName :: string
  MimeType :: string
  FileSize :: int

record Message =
  From :: "User option"
  Chat :: "Chat option"
  Document :: "Document option"
  IsCommand :: bool
  Command :: string
  CommandArguments :: string

record Update =
  Message :: "Message option"

text \<open>The two tables of \<open>dbSchema\<close>: \<open>users\<close> is keyed by \<open>telegram_id\<close>.\<close>

record SentBook =
  book_name :: string
  file_size :: int
  telegram_id :: int

record Db =
  users :: "int \<rightharpoonup> string"
  sent_books :: "SentBook list"

text \<open>
  The body of an HTTP response as a stream: the bytes it delivers and how it ends
  (\<open>None\<close> is EOF, \<open>Some e\<close> a read error after the bytes).
\<close>

record Body =
  content :: "byte list"
  readErr :: "error option"

record Email =
  To :: string
  Sender :: string
  Subject :: string
  AttachName :: string
  AttachBytes :: "byte list"

datatype attr = IntAttr string int | StrAttr string string | ErrAttr string error | PanicAttr string

text \<open>
  The calls of the program to its collaborators, in the order they happen: a message
  to a chat, the two file calls of the Telegram API, one HTTP GET and one SMTP
  delivery (each with the error it returned, \<open>None\<close> for success), and a line of the
  operators' log.
\<close>

datatype event =
    Send int string
  | GetFile string
  | GetFileDirectURL string
  | HttpGet string "error option"
  | DialAndSend Email "error option"
  | SlogError string "attr list"

record world =
  db :: Db
  now :: nat
  trace :: "event list"

text \<open>
  The retry policy: the value \<open>backoff.NewExponentialBackOff()\<close> returns.

  Modelled from the spec: the retry wrapper \<open>backoff.Retry\<close> and its exponential policy
  belong to a package that is not part of the sources. Section 4.3 of the specification
  describes them: exponential backoff, no maximum attempt count, bounded only by the
  policy's maximum elapsed time; every attempt is a full re-invocation of the operation;
  any error triggers another attempt until the policy gives up; the result is the
  operation's success value or the last error. \<open>MaxElapsedTime = None\<close> is a policy
  without ceiling. Durations and the clock \<open>now\<close> count the same unit of time.
\<close>

record BackOff =
  InitialInterval :: nat
  Multiplier :: nat
  MaxElapsedTime :: "nat option"

record Address =
  Name :: string
  Addr :: string

text \<open>
  The collaborators, as the program sees them: what each call answers. The network
  calls that are retried answer with their result and the time they took, depending
  on the time of the call.
\<close>

record env =
  config :: BotConfig
  queryFails :: "int \<Rightarrow> error option"
  upsertFails :: "int \<Rightarrow> string \<Rightarrow> error option"
  insertFails :: "int \<Rightarrow> string \<Rightarrow> int \<Rightarrow> error option"
  tgSend :: "int \<Rightarrow> string \<Rightarrow> error option"
  tgGetFile :: "string \<Rightarrow> error + string"
  tgGetFileDirectURL :: "string \<Rightarrow> error + string"
  httpGet :: "nat \<Rightarrow> string \<Rightarrow> (error + Body) \<times> nat"
  smtpDialAndSend :: "nat \<Rightarrow> Email \<Rightarrow> error option \<times> nat"
  NewExponentialBackOff :: BackOff
  ParseAddress :: "string \<Rightarrow> error + Address"

section \<open>Control flow: panics and calls that may not return\<close>

text \<open>
  A Go function either returns, panics (a nil pointer dereference), or does not return
  (a retry loop without end). A computation maps the world to \<open>None\<close> when it does not
  return, and otherwise to its result and the world it leaves.
\<close>

datatype 'a res = Val 'a | Panic

type_synonym 'a prog = "world \<Rightarrow> ('a res \<times> world) option"

definition ret :: "'a \<Rightarrow> 'a prog" where
  "ret x = (\<lambda>w. Some (Val x, w))"

definition bnd :: "'a prog \<Rightarrow> ('a \<Rightarrow> 'b prog) \<Rightarrow> 'b prog" where
  "bnd m f = (\<lambda>w. case m w of
                     None \<Rightarrow> None
                   | Some (Panic, w') \<Rightarrow> Some (Panic, w')
                   | Some (Val x, w') \<Rightarrow> f x w')"

definition deref :: "'a option \<Rightarrow> 'a prog" where
  "deref p = (\<lambda>w. case p of None \<Rightarrow> Some (Panic, w) | Some x \<Rightarrow> Some (Val x, w))"

definition emit :: "event \<Rightarrow> unit prog" where
  "emit e = (\<lambda>w. Some (Val (), w\<lparr>trace := trace w @ [e]\<rparr>))"

text \<open>\<open>update.Message.From.ID\<close>, \<open>update.Message.Chat.ID\<close>, \<open>update.Message.Document\<close>.\<close>

definition fromID :: "Update \<Rightarrow> int prog" where
  "fromID update = bnd (deref (Message update)) (\<lambda>m. bnd (deref (From m)) (\<lambda>u. ret (UserID u)))"

definition chatID :: "Update \<Rightarrow> int prog" where
  "chatID update = bnd (deref (Message update)) (\<lambda>m. bnd (deref (Chat m)) (\<lambda>c. ret (ChatID c)))"

definition document :: "Update \<Rightarrow> Document prog" where
  "document update = bnd (deref (Message update)) (\<lambda>m. deref (Document m))"

section \<open>Database methods\<close>

definition GetKindleEmail :: "env \<Rightarrow> int \<Rightarrow> world \<Rightarrow> error + string" where
  "GetKindleEmail e telegramId w =
     (case queryFails e telegramId of
        Some err \<Rightarrow> Inl err
      | None \<Rightarrow> (case users (db w) telegramId of
                   None \<Rightarrow> Inl ErrNoRows
                 | Some kindleEmail \<Rightarrow> Inr kindleEmail))"

definition SetKindleEmail :: "env \<Rightarrow> int \<Rightarrow> string \<Rightarrow> world \<Rightarrow> error option \<times> world" where
  "SetKindleEmail e telegramId kindleEmail w =
     (case upsertFails e telegramId kindleEmail of
        Some err \<Rightarrow> (Some err, w)
      | None \<Rightarrow> (None, w\<lparr>db := (db w)\<lparr>users := (users (db w))(telegramId \<mapsto> kindleEmail)\<rparr>\<rparr>))"

definition logSentBook :: "env \<Rightarrow> int \<Rightarrow> string \<Rightarrow> int \<Rightarrow> world \<Rightarrow> error option \<times> world" where
  "logSentBook e telegramId bookName fileSize w =
     (case insertFails e telegramId bookName fileSize of
        Some err \<Rightarrow> (Some err, w)
      | None \<Rightarrow> (None, w\<lparr>db := (db w)\<lparr>sent_books := sent_books (db w) @
                   [\<lparr>book_name = bookName, file_size = fileSize, telegram_id = telegramId\<rparr>]\<rparr>\<rparr>))"

section \<open>The retry wrapper\<close>

definition Sleep :: "nat \<Rightarrow> world \<Rightarrow> world" where
  "Sleep d w = w\<lparr>now := now w + d\<rparr>"

text \<open>
  Modelled from the spec: the policy's decision after a failed attempt. It gives up
  (\<open>None\<close>) when the elapsed time and the next interval together pass the ceiling.
\<close>

definition NextBackOff :: "BackOff \<Rightarrow> nat \<Rightarrow> nat \<Rightarrow> nat option" where
  "NextBackOff b interval elapsed =
     (case MaxElapsedTime b of
        None \<Rightarrow> Some interval
      | Some ceiling \<Rightarrow> if elapsed + interval > ceiling then None else Some interval)"

text \<open>
  Modelled from the spec: the retry loop. The operation is a closure; its result stands
  for the error it returns and for the variable it assigns on success.
\<close>

partial_function (option) RetryLoop ::
  "BackOff \<Rightarrow> (world \<Rightarrow> (error + 'a) \<times> world) \<Rightarrow> nat \<Rightarrow> nat \<Rightarrow> world
     \<Rightarrow> ((error + 'a) \<times> world) option" where
  "RetryLoop b operation interval start w =
     (case operation w of
        (Inr v, w1) \<Rightarrow> Some (Inr v, w1)
      | (Inl err, w1) \<Rightarrow>
          (case NextBackOff b interval (now w1 - start) of
             None \<Rightarrow> Some (Inl err, w1)
           | Some next \<Rightarrow> RetryLoop b operation (interval * Multiplier b) start (Sleep next w1)))"

text \<open>
  Modelled from the spec: \<open>backoff.Retry(operation, b)\<close> starts the loop with the
  policy's first interval; the elapsed time counts from the call.
\<close>

definition Retry ::
  "(world \<Rightarrow> (error + 'a) \<times> world) \<Rightarrow> BackOff \<Rightarrow> world \<Rightarrow> ((error + 'a) \<times> world) option" where
  "Retry operation b w = RetryLoop b operation (InitialInterval b) (now w) w"

section \<open>Bot methods\<close>

text \<open>A call that always returns and cannot panic, as a computation.\<close>

definition call :: "(world \<Rightarrow> 'a \<times> world) \<Rightarrow> 'a prog" where
  "call f = (\<lambda>w. case f w of (x, w') \<Rightarrow> Some (Val x, w'))"

text \<open>A call that may not return (the retry wrapper).\<close>

definition callPartial :: "(world \<Rightarrow> ('a \<times> world) option) \<Rightarrow> 'a prog" where
  "callPartial f = (\<lambda>w. case f w of None \<Rightarrow> None | Some (x, w') \<Rightarrow> Some (Val x, w'))"

text \<open>The map \<open>supportedMimeTypes\<close>; reading a key that is absent gives \<open>false\<close>.\<close>

definition supportedMimeTypes :: "string \<rightharpoonup> bool" where
  "supportedMimeTypes = map_of
     [(''application/pdf'', True),
      (''application/epub+zip'', True),
      (''application/vnd.amazon.ebook'', True),
      (''application/x-mobipocket-ebook'', True)]"

definition lookupBool :: "(string \<rightharpoonup> bool) \<Rightarrow> string \<Rightarrow> bool" where
  "lookupBool m k = (case m k of None \<Rightarrow> False | Some v \<Rightarrow> v)"

definition sendMessage :: "env \<Rightarrow> int \<Rightarrow> string \<Rightarrow> unit prog" where
  "sendMessage e chatId msg =
     bnd (emit (Send chatId msg)) (\<lambda>_.
       case tgSend e chatId msg of
         None \<Rightarrow> ret ()
       | Some err \<Rightarrow> emit (SlogError ''failed to send message''
                              [ErrAttr ''error'' err, IntAttr ''chat_id'' chatId]))"

text \<open>
  \<open>io.LimitReader(r, n)\<close> reads from \<open>r\<close> and stops with EOF after \<open>n\<close> bytes;
  \<open>io.ReadAll\<close> reads until EOF or an error and returns what it read, with the error
  when there was one.
\<close>

definition LimitReader :: "Body \<Rightarrow> int \<Rightarrow> Body" where
  "LimitReader r n =
     (if n \<le> int (length (content r))
      then \<lparr>content = take (nat n) (content r), readErr = None\<rparr>
      else r)"

definition ReadAll :: "Body \<Rightarrow> byte list \<times> error option" where
  "ReadAll r = (content r, readErr r)"

text \<open>The closure \<open>resp, err = b.httpClient.Get(fileUrl)\<close>: one attempt.\<close>

definition httpGetOp :: "env \<Rightarrow> string \<Rightarrow> world \<Rightarrow> (error + Body) \<times> world" where
  "httpGetOp e fileUrl w =
     (case httpGet e (now w) fileUrl of
        (r, d) \<Rightarrow> (r, w\<lparr>now := now w + d,
                       trace := trace w @ [HttpGet fileUrl (case r of Inl err \<Rightarrow> Some err | Inr resp \<Rightarrow> None)]\<rparr>))"

definition downloadTelegramFile :: "env \<Rightarrow> string \<Rightarrow> (byte list \<times> error option) prog" where
  "downloadTelegramFile e fileId =
     bnd (emit (GetFile fileId)) (\<lambda>_.
     case tgGetFile e fileId of
       Inl err \<Rightarrow> ret ([], Some (Wrap ''error getting file info: '' err))
     | Inr file \<Rightarrow>
         bnd (emit (GetFileDirectURL file)) (\<lambda>_.
         case tgGetFileDirectURL e file of
           Inl err \<Rightarrow> ret ([], Some (Wrap ''error getting file URL: '' err))
         | Inr fileUrl \<Rightarrow>
             bnd (callPartial (Retry (httpGetOp e fileUrl) (NewExponentialBackOff e))) (\<lambda>r.
             case r of
               Inl err \<Rightarrow> ret ([], Some (Wrap ''error downloading file: '' err))
             | Inr resp \<Rightarrow> ret (ReadAll (LimitReader resp (MaxFileSize (config e)))))))"

text \<open>The closure \<open>d.DialAndSend(m)\<close>: one attempt.\<close>

definition dialAndSendOp :: "env \<Rightarrow> Email \<Rightarrow> world \<Rightarrow> (error + unit) \<times> world" where
  "dialAndSendOp e m w =
     (case smtpDialAndSend e (now w) m of
        (r, d) \<Rightarrow> ((case r of None \<Rightarrow> Inr () | Some err \<Rightarrow> Inl err),
                   w\<lparr>now := now w + d, trace := trace w @ [DialAndSend m r]\<rparr>))"

definition sendEmail :: "env \<Rightarrow> string \<Rightarrow> byte list \<Rightarrow> string \<Rightarrow> error option prog" where
  "sendEmail e kindleEmail fileBytes fileName =
     bnd (callPartial (Retry
            (dialAndSendOp e \<lparr>To = kindleEmail, Sender = BotEmail (config e),
               Subject = ''BookToKindleBot'', AttachName = fileName, AttachBytes = fileBytes\<rparr>)
            (NewExponentialBackOff e))) (\<lambda>r.
     case r of
       Inl err \<Rightarrow> ret (Some (Wrap ''error sending email: '' err))
     | Inr _ \<Rightarrow> ret None)"

definition handleUnsupportedMessage :: "env \<Rightarrow> Update \<Rightarrow> unit prog" where
  "handleUnsupportedMessage e update =
     bnd (chatID update) (\<lambda>chatId.
       sendMessage e chatId ''Unsupported message type. Send me a PDF, EPUB, or MOBI file'')"

definition handleDocument :: "env \<Rightarrow> Update \<Rightarrow> unit prog" where
  "handleDocument e update =
     bnd (fromID update) (\<lambda>userId.
     bnd (call (\<lambda>w. (GetKindleEmail e userId w, w))) (\<lambda>r.
     case r of
       Inl err \<Rightarrow>
         bnd (chatID update) (\<lambda>chatId.
           sendMessage e chatId
             ''Please set your Kindle email address first using /set_kindle_email'')
     | Inr kindleEmail \<Rightarrow>
         bnd (document update) (\<lambda>doc.
         if \<not> lookupBool supportedMimeTypes (MimeType doc) then
           bnd (chatID update) (\<lambda>chatId.
             sendMessage e chatId
               ''Unsupported file type. Try sending a PDF, EPUB, or MOBI file'')
         else if FileSize doc > MaxFileSize (config e) then
           bnd (chatID update) (\<lambda>chatId.
             sendMessage e chatId ''File is too large. Maximum file size is 20MB'')
         else
           bnd (chatID update) (\<lambda>chatId.
           bnd (sendMessage e chatId ''Downloading file...'') (\<lambda>_.
           bnd (downloadTelegramFile e (FileID doc)) (\<lambda>(fileBytes, err).
           case err of
             Some err \<Rightarrow>
               bnd (emit (SlogError ''error downloading file''
                      [ErrAttr ''error'' err, IntAttr ''user_id'' userId,
                       StrAttr ''file_id'' (FileID doc)])) (\<lambda>_.
                 sendMessage e chatId ''Error downloading file, please try again later'')
           | None \<Rightarrow>
               bnd (sendMessage e chatId ''Download successful. Sending file to Kindle...'') (\<lambda>_.
               bnd (sendEmail e kindleEmail fileBytes (FileName doc)) (\<lambda>err.
               case err of
                 Some err \<Rightarrow>
                   bnd (emit (SlogError ''error sending email''
                          [ErrAttr ''error'' err, IntAttr ''user_id'' userId,
                           StrAttr ''kindle_email'' kindleEmail])) (\<lambda>_.
                     sendMessage e chatId ''Error sending email, please try again later'')
               | None \<Rightarrow>
                   bnd (call (logSentBook e userId (FileName doc) (FileSize doc))) (\<lambda>err.
                   bnd (case err of
                          Some err \<Rightarrow>
                            emit (SlogError ''error logging sent book''
                              [ErrAttr ''error'' err, IntAttr ''user_id'' userId,
                               StrAttr ''file_name'' (FileName doc)])
                        | None \<Rightarrow> ret ()) (\<lambda>_.
                     sendMessage e chatId ''Book sent to Kindle successfully''))))))))))"

section \<open>Command handlers\<close>

definition HasSuffix :: "string \<Rightarrow> string \<Rightarrow> bool" where
  "HasSuffix s suffix =
     (length suffix \<le> length s \<and> drop (length s - length suffix) s = suffix)"

text \<open>
  \<open>validateEmail\<close>. The parser \<open>mail.ParseAddress\<close> of the Go library is a parameter:
  it answers with an error or with the parsed address (display name and address).
\<close>

definition validateEmail :: "(string \<Rightarrow> error + Address) \<Rightarrow> string \<Rightarrow> error + string" where
  "validateEmail parseAddress email =
     (case parseAddress email of
        Inl err \<Rightarrow> Inl (Wrap ''invalid email address: '' err)
      | Inr address \<Rightarrow>
          if \<not> HasSuffix (Addr address) ''@kindle.com''
          then Inl (ErrText ''email address is not a kindle email address'')
          else Inr email)"

definition newline :: string where
  "newline = [CHR 0x0A]"

definition tab :: string where
  "tab = [CHR 0x09]"

definition apostrophe :: string where
  "apostrophe = [CHR 0x27]"

definition startCommand :: "env \<Rightarrow> Update \<Rightarrow> unit prog" where
  "startCommand e update =
     bnd (deref (Message update)) (\<lambda>m.
     bnd (deref (From m)) (\<lambda>u.
     bnd (chatID update) (\<lambda>chatId.
       emit (Send chatId
         (newline @ tab @ tab @ ''Hello '' @ FirstName u
          @ ''! Send me a PDF, EPUB, or MOBI file and I'' @ apostrophe
          @ ''ll send it to your Kindle.'' @ newline @ tab @ tab
          @ ''Use /set_kindle_email to set your Kindle email address and don'' @ apostrophe
          @ ''t forget to whitelist '' @ BotEmail (config e)
          @ '' in your Kindle settings.'' @ newline @ tab)))))"

definition helpCommand :: "env \<Rightarrow> Update \<Rightarrow> unit prog" where
  "helpCommand e update =
     bnd (chatID update) (\<lambda>chatId.
       emit (Send chatId
         (newline @ tab @ tab @ ''Available commands:'' @ newline @ tab @ tab
          @ ''/set_kindle_email <kindle_email_address> - set your Kindle email address''
          @ newline @ tab @ tab @ ''/help - show this help message'' @ newline @ tab)))"

definition invalidCommand :: "env \<Rightarrow> Update \<Rightarrow> unit prog" where
  "invalidCommand e update =
     bnd (deref (Message update)) (\<lambda>m.
     bnd (chatID update) (\<lambda>chatId.
       sendMessage e chatId
         (''Unknown command: '' @ Command m @ '', use /help for available commands'')))"

definition setKindleEmailCommand :: "env \<Rightarrow> Update \<Rightarrow> unit prog" where
  "setKindleEmailCommand e update =
     bnd (deref (Message update)) (\<lambda>m.
     if CommandArguments m = [] then
       bnd (chatID update) (\<lambda>chatId.
         sendMessage e chatId ''Please provide your Kindle email address'')
     else
       case validateEmail (ParseAddress e) (CommandArguments m) of
         Inl err \<Rightarrow>
           bnd (chatID update) (\<lambda>chatId. sendMessage e chatId (Error err))
       | Inr kindleEmail \<Rightarrow>
           bnd (fromID update) (\<lambda>userId.
           bnd (call (SetKindleEmail e userId kindleEmail)) (\<lambda>err.
           case err of
             Some err \<Rightarrow>
               bnd (chatID update) (\<lambda>chatId.
               bnd (sendMessage e chatId
                      ''Error setting Kindle email address, please try again later'') (\<lambda>_.
                 emit (SlogError ''error setting kindle email''
                   [ErrAttr ''error'' err, IntAttr ''user_id'' userId,
                    StrAttr ''kindle_email'' kindleEmail])))
           | None \<Rightarrow>
               bnd (chatID update) (\<lambda>chatId.
                 sendMessage e chatId
                   (''Kindle email address set to '' @ kindleEmail @ '' successfully'')))))"

definition handleCommand :: "env \<Rightarrow> Update \<Rightarrow> unit prog" where
  "handleCommand e update =
     bnd (deref (Message update)) (\<lambda>m.
       if Command m = ''start'' then startCommand e update
       else if Command m = ''help'' then helpCommand e update
       else if Command m = ''set_kindle_email'' then setKindleEmailCommand e update
       else invalidCommand e update)"

section \<open>The per-event task\<close>

text \<open>
  The deferred function of \<open>handleUpdate\<close>, when \<open>recover()\<close> returns a panic: it
  evaluates the arguments of \<open>slog.Error\<close>, among them \<open>update.Message.From.ID\<close> and
  \<open>update.Message.Chat.ID\<close>, and logs. A panic in a deferred function replaces the
  one recovered and leaves the function.
\<close>

definition recovered :: "Update \<Rightarrow> unit prog" where
  "recovered update =
     bnd (fromID update) (\<lambda>userId.
     bnd (chatID update) (\<lambda>chatId.
       emit (SlogError ''recovered from panic in handleUpdate''
         [PanicAttr ''error'', IntAttr ''user_id'' userId, IntAttr ''chat_id'' chatId])))"

definition route :: "env \<Rightarrow> Update \<Rightarrow> unit prog" where
  "route e update =
     bnd (deref (Message update)) (\<lambda>m.
       if Document m \<noteq> None then handleDocument e update
       else if IsCommand m then handleCommand e update
       else handleUnsupportedMessage e update)"

definition handleUpdate :: "env \<Rightarrow> Update \<Rightarrow> unit prog" where
  "handleUpdate e update =
     (\<lambda>w. case route e update w of
            None \<Rightarrow> None
          | Some (Val u, w') \<Rightarrow> Some (Val (), w')
          | Some (Panic, w') \<Rightarrow> recovered update w')"

section \<open>The dispatch loop of Start\<close>

text \<open>
  \<open>Start\<close> runs one loop and one goroutine per update; \<open>workerPool\<close> is a channel of
  capacity \<open>MaxWorkers\<close>. The model is the interleaving of their steps. The loop is at
  \<open>select\<close>, or has received an update and is at the send \<open>workerPool <- struct{}{}\<close>
  (which blocks while the channel is full), or has sent and is at the \<open>go\<close> statement,
  or has returned \<open>ctx.Err()\<close>. A goroutine is running \<open>handleUpdate\<close>, or has left it
  (by return or by panic) and is at its deferred receive \<open><-workerPool\<close>. A panic that
  leaves \<open>handleUpdate\<close> runs the deferred receive and then ends the process.
  \<open>acquired\<close> and \<open>released\<close> count the sends and the receives on the channel.
  A goroutine runs \<open>handleUpdate\<close> in one step. The directory \<open>downloads\<close> and the
  health endpoint, which \<open>Start\<close> sets up before the loop, are left out.
\<close>

datatype task = Running Update | Ended "unit res"

datatype loop = Select | SendToken Update | Go Update | Returned

record dispatcher =
  workerPool :: nat
  pc :: loop
  tasks :: "task list"
  crashed :: bool
  acquired :: nat
  released :: nat
  wld :: world

definition startLoop :: "world \<Rightarrow> dispatcher" where
  "startLoop w = \<lparr>workerPool = 0, pc = Select, tasks = [], crashed = False,
              acquired = 0, released = 0, wld = w\<rparr>"

definition releaseSlot :: "nat \<Rightarrow> unit res \<Rightarrow> dispatcher \<Rightarrow> dispatcher" where
  "releaseSlot i r s =
     s\<lparr>tasks := take i (tasks s) @ drop (Suc i) (tasks s),
       workerPool := workerPool s - 1,
       released := released s + 1,
       crashed := (r = Panic)\<rparr>"

inductive step :: "env \<Rightarrow> dispatcher \<Rightarrow> dispatcher \<Rightarrow> bool" for e :: env where
  receive: "\<not> crashed s \<Longrightarrow> pc s = Select \<Longrightarrow> step e s (s\<lparr>pc := SendToken update\<rparr>)"
| ctxDone: "\<not> crashed s \<Longrightarrow> pc s = Select \<Longrightarrow> step e s (s\<lparr>pc := Returned\<rparr>)"
| acquire: "\<not> crashed s \<Longrightarrow> pc s = SendToken update
     \<Longrightarrow> int (workerPool s) < MaxWorkers (config e)
     \<Longrightarrow> step e s (s\<lparr>workerPool := workerPool s + 1, acquired := acquired s + 1,
                       pc := Go update\<rparr>)"
| spawn: "\<not> crashed s \<Longrightarrow> pc s = Go update
     \<Longrightarrow> step e s (s\<lparr>tasks := tasks s @ [Running update], pc := Select\<rparr>)"
| run: "\<not> crashed s \<Longrightarrow> i < length (tasks s) \<Longrightarrow> tasks s ! i = Running update
     \<Longrightarrow> handleUpdate e update (wld s) = Some (r, w')
     \<Longrightarrow> step e s (s\<lparr>tasks := (tasks s)[i := Ended r], wld := w'\<rparr>)"
| release: "\<not> crashed s \<Longrightarrow> i < length (tasks s) \<Longrightarrow> tasks s ! i = Ended r
     \<Longrightarrow> 0 < workerPool s
     \<Longrightarrow> step e s (releaseSlot i r s)"

inductive reachable :: "env \<Rightarrow> world \<Rightarrow> dispatcher \<Rightarrow> bool" for e :: env and w :: world where
  init: "reachable e w (startLoop w)"
| next_step: "reachable e w s \<Longrightarrow> step e s s' \<Longrightarrow> reachable e w s'"

definition goPending :: "loop \<Rightarrow> nat" where
  "goPending l = (case l of Go update \<Rightarrow> 1 | _ \<Rightarrow> 0)"

section \<open>The address parser of the Go library\<close>

text \<open>
  \<open>mail.ParseAddress\<close> (package \<open>net/mail\<close>) is not part of the sources. The theorems
  below hold for every parser; the examples need one. This is the library's parser on
  ASCII input that has no quoted string, comment, domain literal, group or encoded
  word: an address is \<open>local@domain\<close>, or \<open><local@domain>\<close> after an optional
  display name, and the library's error texts for what is neither.
\<close>

definition isAtext :: "char \<Rightarrow> bool \<Rightarrow> bool" where
  "isAtext c dot =
     (if c = CHR ''.'' then dot
      else if c \<in> set ''()<>[]:;@,'' \<or> c = CHR 0x5C \<or> c = CHR 0x22 then False
      else (0x21 :: nat) \<le> of_char c \<and> (of_char c :: nat) \<le> 0x7E)"

definition skipSpace :: "string \<Rightarrow> string" where
  "skipSpace s = dropWhile (\<lambda>c. c = CHR '' '' \<or> c = CHR 0x09) s"

fun containsDoubleDot :: "string \<Rightarrow> bool" where
  "containsDoubleDot (a # b # s) = ((a = CHR ''.'' \<and> b = CHR ''.'') \<or> containsDoubleDot (b # s))"
| "containsDoubleDot _ = False"

definition consumeAtom :: "bool \<Rightarrow> string \<Rightarrow> error + string \<times> string" where
  "consumeAtom permissive s =
     (let atom = takeWhile (\<lambda>c. isAtext c True) s;
          rest = dropWhile (\<lambda>c. isAtext c True) s
      in if atom = [] then Inl (ErrText ''mail: invalid string'')
         else if \<not> permissive \<and> hd atom = CHR ''.'' then Inl (ErrText ''mail: leading dot in atom'')
         else if \<not> permissive \<and> containsDoubleDot atom then Inl (ErrText ''mail: double dot in atom'')
         else if \<not> permissive \<and> last atom = CHR ''.'' then Inl (ErrText ''mail: trailing dot in atom'')
         else Inr (atom, rest))"

definition consumeAddrSpec :: "string \<Rightarrow> error + string \<times> string" where
  "consumeAddrSpec s =
     (let s1 = skipSpace s in
      if s1 = [] then Inl (ErrText ''mail: no addr-spec'')
      else
        (case consumeAtom False s1 of
           Inl err \<Rightarrow> Inl err
         | Inr (localPart, s2) \<Rightarrow>
             (case s2 of
                [] \<Rightarrow> Inl (ErrText ''mail: missing @ in addr-spec'')
              | c # s3 \<Rightarrow>
                  (if c \<noteq> CHR ''@'' then Inl (ErrText ''mail: missing @ in addr-spec'')
                   else
                     (let s4 = skipSpace s3 in
                      if s4 = [] then Inl (ErrText ''mail: no domain in addr-spec'')
                      else
                        (case consumeAtom False s4 of
                           Inl err \<Rightarrow> Inl err
                         | Inr (domain, s5) \<Rightarrow> Inr (localPart @ ''@'' @ domain, s5)))))))"

text \<open>The words of a display name, from the front, and the rest of the input.\<close>

function consumeWords :: "string \<Rightarrow> string list \<times> string" where
  "consumeWords s =
     (case consumeAtom True (skipSpace s) of
        Inl err \<Rightarrow> ([], skipSpace s)
      | Inr (word, rest) \<Rightarrow> (case consumeWords rest of (ws, r) \<Rightarrow> (word # ws, r)))"
  by pat_completeness auto
termination
proof (relation "measure length")
  show "wf (measure length)" by simp
next
  fix s :: string and x :: "string \<times> string" and word rest
  assume a: "consumeAtom True (skipSpace s) = Inr x" and x: "(word, rest) = x"
  let ?P = "\<lambda>c. isAtext c True"
  let ?t = "skipSpace s"
  from a x have ne: "takeWhile ?P ?t \<noteq> []" and r: "rest = dropWhile ?P ?t"
    by (auto simp: consumeAtom_def Let_def split: if_splits)
  have "length (takeWhile ?P ?t) + length (dropWhile ?P ?t) = length ?t"
    by (metis length_append takeWhile_dropWhile_id)
  with ne r have "length rest < length ?t"
    by (cases "takeWhile ?P ?t") auto
  moreover have "length ?t \<le> length s"
    by (simp add: skipSpace_def length_dropWhile_le)
  ultimately show "(rest, s) \<in> measure length" by simp
qed

fun joinWords :: "string list \<Rightarrow> string" where
  "joinWords [] = []"
| "joinWords [w] = w"
| "joinWords (w # ws) = w @ '' '' @ joinWords ws"

definition consumePhrase :: "string \<Rightarrow> error + string \<times> string" where
  "consumePhrase s =
     (if skipSpace s = [] then Inr ([], [])
      else case consumeWords s of
        ([], r) \<Rightarrow> Inl (ErrText (''mail: missing word in phrase: '' @ ''mail: invalid string''))
      | (ws, r) \<Rightarrow> Inr (joinWords ws, r))"

definition singleAddress :: "Address \<Rightarrow> string \<Rightarrow> error + Address" where
  "singleAddress a rest =
     (if skipSpace rest = [] then Inr a
      else Inl (ErrText (''mail: expected single address, got '' @ [CHR 0x22] @ skipSpace rest @ [CHR 0x22])))"

definition noAngleAddr :: "string \<Rightarrow> error" where
  "noAngleAddr displayName =
     (if list_all (\<lambda>c. isAtext c True) displayName
      then ErrText (''mail: missing '' @ [CHR 0x27] @ ''@'' @ [CHR 0x27] @ '' or angle-addr'')
      else ErrText ''mail: no angle-addr'')"

definition angleAddr :: "string \<Rightarrow> string \<Rightarrow> error + Address" where
  "angleAddr displayName s =
     (case skipSpace s of
        [] \<Rightarrow> Inl (noAngleAddr displayName)
      | c # s1 \<Rightarrow>
          (if c \<noteq> CHR ''<'' then Inl (noAngleAddr displayName)
           else
             (case consumeAddrSpec s1 of
                Inl err \<Rightarrow> Inl err
              | Inr (spec, s2) \<Rightarrow>
                  (case s2 of
                     [] \<Rightarrow> Inl (ErrText ''mail: unclosed angle-addr'')
                   | d # s3 \<Rightarrow>
                       (if d \<noteq> CHR ''>'' then Inl (ErrText ''mail: unclosed angle-addr'')
                        else singleAddress \<lparr>Name = displayName, Addr = spec\<rparr> s3)))))"

definition mailParseAddress :: "string \<Rightarrow> error + Address" where
  "mailParseAddress s =
     (let s1 = skipSpace s in
      if s1 = [] then Inl (ErrText ''mail: no address'')
      else
        (case consumeAddrSpec s1 of
           Inr (spec, rest) \<Rightarrow> singleAddress \<lparr>Name = [], Addr = spec\<rparr> rest
         | Inl err \<Rightarrow>
             (if hd s1 \<noteq> CHR ''<''
              then (case consumePhrase s1 of
                      Inl err \<Rightarrow> Inl err
                    | Inr (displayName, s2) \<Rightarrow> angleAddr displayName s2)
              else angleAddr [] s1)))"

section \<open>Observations on a trace\<close>

text \<open>The notices sent to users, the calls of the Fetch step and those of the Transmit step.\<close>

fun notices :: "event list \<Rightarrow> (int \<times> string) list" where
  "notices [] = []"
| "notices (Send chatId msg # evs) = (chatId, msg) # notices evs"
| "notices (ev # evs) = notices evs"

fun isFetch :: "event \<Rightarrow> bool" where
  "isFetch (GetFile fileId) = True"
| "isFetch (GetFileDirectURL fileId) = True"
| "isFetch (HttpGet fileUrl r) = True"
| "isFetch ev = False"

fun isTransmit :: "event \<Rightarrow> bool" where
  "isTransmit (DialAndSend m r) = True"
| "isTransmit ev = False"

fun isDelivery :: "event \<Rightarrow> bool" where
  "isDelivery (DialAndSend m None) = True"
| "isDelivery ev = False"

definition transmitSucceeded :: "event list \<Rightarrow> bool" where
  "transmitSucceeded evs = list_ex isDelivery evs"

fun isLogFailure :: "event \<Rightarrow> bool" where
  "isLogFailure (SlogError msg attrs) = (msg = ''error logging sent book'')"
| "isLogFailure ev = False"

definition logFailed :: "event list \<Rightarrow> bool" where
  "logFailed evs = list_ex isLogFailure evs"

text \<open>What \<open>sendMessage\<close> adds to the trace: the message, and a log line when sending failed.\<close>

definition sendEvents :: "env \<Rightarrow> int \<Rightarrow> string \<Rightarrow> event list" where
  "sendEvents e chatId msg =
     Send chatId msg #
       (case tgSend e chatId msg of
          None \<Rightarrow> []
        | Some err \<Rightarrow> [SlogError ''failed to send message''
                         [ErrAttr ''error'' err, IntAttr ''chat_id'' chatId]])"

section \<open>The attempts of the retry loop\<close>

text \<open>
  The world in which attempt \<open>k\<close> of the retry loop starts, when the attempts before it
  failed and the policy went on: each failed attempt is followed by a sleep of the
  current interval, and the interval is multiplied.
\<close>

fun attemptState ::
  "BackOff \<Rightarrow> (world \<Rightarrow> (error + 'a) \<times> world) \<Rightarrow> nat \<Rightarrow> world \<Rightarrow> nat \<Rightarrow> world" where
  "attemptState b operation interval w 0 = w"
| "attemptState b operation interval w (Suc k) =
     attemptState b operation (interval * Multiplier b) (Sleep interval (snd (operation w))) k"

definition attemptFails :: "(world \<Rightarrow> (error + 'a) \<times> world) \<Rightarrow> world \<Rightarrow> bool" where
  "attemptFails operation w = isl (fst (operation w))"

definition givesUp ::
  "BackOff \<Rightarrow> (world \<Rightarrow> (error + 'a) \<times> world) \<Rightarrow> nat \<Rightarrow> nat \<Rightarrow> world \<Rightarrow> bool" where
  "givesUp b operation interval t0 w =
     (NextBackOff b interval (now (snd (operation w)) - t0) = None)"

section \<open>Example collaborators and events\<close>

text \<open>
  The configuration of \<open>main\<close>, collaborators that answer every call with success, a
  user who has set a destination, and a PDF sent by that user.
\<close>

definition mainConfig :: BotConfig where
  "mainConfig = \<lparr>MaxWorkers = 10, DbPath = ''bot.db'', BotEmail = ''bot@example.com'',
     TelegramToken = ''token'', MaxFileSize = 20 * 1024 * 1024, DownloadTimeout = 30\<rparr>"

definition calmEnv :: env where
  "calmEnv = \<lparr>config = mainConfig,
     queryFails = (\<lambda>telegramId. None),
     upsertFails = (\<lambda>telegramId kindleEmail. None),
     insertFails = (\<lambda>telegramId bookName fileSize. None),
     tgSend = (\<lambda>chatId msg. None),
     tgGetFile = (\<lambda>fileId. Inr fileId),
     tgGetFileDirectURL = (\<lambda>fileId. Inr (''https://files.example/'' @ fileId)),
     httpGet = (\<lambda>t fileUrl. (Inr \<lparr>content = [1, 2, 3], readErr = None\<rparr>, 1)),
     smtpDialAndSend = (\<lambda>t m. (None, 1)),
     NewExponentialBackOff = \<lparr>InitialInterval = 500, Multiplier = 2, MaxElapsedTime = Some 900000\<rparr>,
     ParseAddress = mailParseAddress\<rparr>"

definition configuredWorld :: world where
  "configuredWorld = \<lparr>db = \<lparr>users = [7 \<mapsto> ''x@kindle.com''], sent_books = []\<rparr>,
     now = 0, trace = []\<rparr>"

definition pdfDocument :: Document where
  "pdfDocument = \<lparr>FileID = ''f1'', FileName = ''book.pdf'', MimeType = ''application/pdf'',
     FileSize = 3\<rparr>"

definition documentMessage :: "Document \<Rightarrow> Message" where
  "documentMessage doc = \<lparr>From = Some \<lparr>UserID = 7, FirstName = ''Ada''\<rparr>,
     Chat = Some \<lparr>ChatID = 42\<rparr>, Document = Some doc, IsCommand = False, Command = [],
     CommandArguments = []\<rparr>"

definition commandMessage :: "string \<Rightarrow> string \<Rightarrow> Message" where
  "commandMessage name args = \<lparr>From = Some \<lparr>UserID = 7, FirstName = ''Ada''\<rparr>,
     Chat = Some \<lparr>ChatID = 42\<rparr>, Document = None, IsCommand = True, Command = name,
     CommandArguments = args\<rparr>"

text \<open>The same collaborators, with a store that refuses the insert into \<open>sent_books\<close>.\<close>

definition lockedEnv :: env where
  "lockedEnv = calmEnv\<lparr>insertFails :=
     (\<lambda>telegramId bookName fileSize. Some (ErrText ''database is locked''))\<rparr>"

definition pdfEmail :: Email where
  "pdfEmail = \<lparr>To = ''x@kindle.com'', Sender = ''bot@example.com'', Subject = ''BookToKindleBot'',
     AttachName = ''book.pdf'', AttachBytes = [1, 2, 3]\<rparr>"

text \<open>The worlds these two runs leave.\<close>

definition afterLockedDelivery :: world where
  "afterLockedDelivery = configuredWorld\<lparr>now := 2, trace :=
     [Send 42 ''Downloading file...'', GetFile ''f1'', GetFileDirectURL ''f1'',
      HttpGet ''https://files.example/f1'' None,
      Send 42 ''Download successful. Sending file to Kindle...'',
      DialAndSend pdfEmail None,
      SlogError ''error logging sent book''
        [ErrAttr ''error'' (ErrText ''database is locked''), IntAttr ''user_id'' 7,
         StrAttr ''file_name'' ''book.pdf''],
      Send 42 ''Book sent to Kindle successfully'']\<rparr>"

definition afterDelivery :: world where
  "afterDelivery = \<lparr>db = \<lparr>users = [7 \<mapsto> ''x@kindle.com''],
        sent_books = [\<lparr>book_name = ''book.pdf'', file_size = 3, telegram_id = 7\<rparr>]\<rparr>,
     now = 2,
     trace =
       [Send 42 ''Downloading file...'', GetFile ''f1'', GetFileDirectURL ''f1'',
        HttpGet ''https://files.example/f1'' None,
        Send 42 ''Download successful. Sending file to Kindle...'',
        DialAndSend pdfEmail None,
        Send 42 ''Book sent to Kindle successfully'']\<rparr>"

text \<open>A ceiling of two bytes, and an SMTP server that refuses every delivery.\<close>

definition tinyCapEnv :: env where
  "tinyCapEnv = calmEnv\<lparr>config := mainConfig\<lparr>MaxFileSize := 2\<rparr>\<rparr>"

definition refusingEnv :: env where
  "refusingEnv = calmEnv\<lparr>smtpDialAndSend := (\<lambda>t m. (Some (ErrText ''connection refused''), 1)),
     NewExponentialBackOff := \<lparr>InitialInterval = 2, Multiplier = 2, MaxElapsedTime = Some 10\<rparr>\<rparr>"

text \<open>
  An update without message (Telegram sends such updates for edited messages, channel
  posts, callback queries and others), and three states of the dispatch loop.
\<close>

definition nilUpdate :: Update where
  "nilUpdate = \<lparr>Message = None\<rparr>"

definition oneRunning :: dispatcher where
  "oneRunning = \<lparr>workerPool = 1, pc = Select,
     tasks = [Running \<lparr>Message = Some (documentMessage pdfDocument)\<rparr>], crashed = False,
     acquired = 1, released = 0, wld = configuredWorld\<rparr>"

definition nilRunning :: dispatcher where
  "nilRunning = \<lparr>workerPool = 1, pc = Select, tasks = [Running nilUpdate], crashed = False,
     acquired = 1, released = 0, wld = configuredWorld\<rparr>"

definition processCrashed :: dispatcher where
  "processCrashed = \<lparr>workerPool = 0, pc = Select, tasks = [], crashed = True,
     acquired = 1, released = 1, wld = configuredWorld\<rparr>"

text \<open>
  The sequences of notices one run of \<open>handleDocument\<close> can send to a chat: none when
  it panicked, else one per outcome.
\<close>

definition documentOutcomes :: "int \<Rightarrow> (int \<times> string) list set" where
  "documentOutcomes chatId =
     {[],
      [(chatId, ''Please set your Kindle email address first using /set_kindle_email'')],
      [(chatId, ''Unsupported file type. Try sending a PDF, EPUB, or MOBI file'')],
      [(chatId, ''File is too large. Maximum file size is 20MB'')],
      [(chatId, ''Downloading file...''),
       (chatId, ''Error downloading file, please try again later'')],
      [(chatId, ''Downloading file...''),
       (chatId, ''Download successful. Sending file to Kindle...''),
       (chatId, ''Error sending email, please try again later'')],
      [(chatId, ''Downloading file...''),
       (chatId, ''Download successful. Sending file to Kindle...''),
       (chatId, ''Book sent to Kindle successfully'')]}"

text \<open>The command \<open>/set_kindle_email\<close> with an argument, from the same user.\<close>

definition setKindleEmail :: "string \<Rightarrow> Update" where
  "setKindleEmail args = \<lparr>Message = Some (commandMessage ''set_kindle_email'' args)\<rparr>"


section \<open>Stages of one run\<close>

text \<open>
  A goroutine that has left \<open>handleUpdate\<close>; the state after one task ran and gave its
  slot back; the worlds in which the retried GET and the retried SMTP delivery of
  \<open>handleDocument\<close> start; the message \<open>sendEmail\<close> builds; and the conditions under
  which \<open>handleDocument\<close> reaches the Fetch step.
\<close>

definition endTask :: "nat \<Rightarrow> unit res \<Rightarrow> world \<Rightarrow> dispatcher \<Rightarrow> dispatcher" where
  "endTask i r w' s = s\<lparr>tasks := (tasks s)[i := Ended r], wld := w'\<rparr>"

definition oneReleased :: dispatcher where
  "oneReleased = \<lparr>workerPool = 0, pc = Select, tasks = [], crashed = False,
     acquired = 1, released = 1, wld = afterDelivery\<rparr>"

definition fetchStart :: "env \<Rightarrow> Chat \<Rightarrow> Document \<Rightarrow> string \<Rightarrow> world \<Rightarrow> world" where
  "fetchStart e c doc fl w =
     w\<lparr>trace := trace w @ sendEvents e (ChatID c) ''Downloading file...''
                 @ [GetFile (FileID doc), GetFileDirectURL fl]\<rparr>"

definition transmitStart :: "env \<Rightarrow> Chat \<Rightarrow> world \<Rightarrow> world" where
  "transmitStart e c w1 =
     w1\<lparr>trace := trace w1
         @ sendEvents e (ChatID c) ''Download successful. Sending file to Kindle...''\<rparr>"

definition kindleMail :: "env \<Rightarrow> string \<Rightarrow> Document \<Rightarrow> byte list \<Rightarrow> Email" where
  "kindleMail e kindleEmail doc fileBytes =
     \<lparr>To = kindleEmail, Sender = BotEmail (config e), Subject = ''BookToKindleBot'',
      AttachName = FileName doc, AttachBytes = fileBytes\<rparr>"

definition passesValidation ::
  "env \<Rightarrow> Update \<Rightarrow> world \<Rightarrow> Message \<Rightarrow> User \<Rightarrow> Chat \<Rightarrow> Document \<Rightarrow> string \<Rightarrow> bool" where
  "passesValidation e update w m u c doc kindleEmail =
     (Message update = Some m \<and> From m = Some u \<and> Chat m = Some c \<and> Document m = Some doc
      \<and> GetKindleEmail e (UserID u) w = Inr kindleEmail
      \<and> lookupBool supportedMimeTypes (MimeType doc)
      \<and> \<not> FileSize doc > MaxFileSize (config e))"

section \<open>Running computations\<close>

lemma bnd_ret [simp]: "bnd (ret x) f = f x"
  by (simp add: bnd_def ret_def)

lemma bnd_deref_Some [simp]: "bnd (deref (Some x)) f = f x"
  by (simp add: bnd_def deref_def)

lemma bnd_deref_None [simp]: "bnd (deref None) f w = Some (Panic, w)"
  by (simp add: bnd_def deref_def)

lemma bnd_emit [simp]: "bnd (emit ev) f w = f () (w\<lparr>trace := trace w @ [ev]\<rparr>)"
  by (simp add: bnd_def emit_def)

lemma bnd_call [simp]: "bnd (call g) f w = (case g w of (x, w') \<Rightarrow> f x w')"
  by (simp add: bnd_def call_def split: prod.splits)

lemma bnd_callPartial [simp]:
  "bnd (callPartial g) f w = (case g w of None \<Rightarrow> None | Some (x, w') \<Rightarrow> f x w')"
  by (simp add: bnd_def callPartial_def split: option.splits prod.splits)

lemma ret_run [simp]: "ret x w = Some (Val x, w)"
  by (simp add: ret_def)

lemma bnd_Val [simp]: "bnd (\<lambda>w. Some (Val x, w)) f = f x"
  by (simp add: bnd_def)

lemma sendMessage_run:
  "sendMessage e chatId msg w = Some (Val (), w\<lparr>trace := trace w @ sendEvents e chatId msg\<rparr>)"
  by (simp add: sendMessage_def sendEvents_def ret_def emit_def bnd_def split: option.splits)

lemma bnd_sendMessage [simp]:
  "bnd (sendMessage e chatId msg) f w = f () (w\<lparr>trace := trace w @ sendEvents e chatId msg\<rparr>)"
  by (simp add: bnd_def sendMessage_run)

lemma notices_append [simp]: "notices (xs @ ys) = notices xs @ notices ys"
  by (induction xs rule: notices.induct) simp_all

lemma notices_sendEvents [simp]: "notices (sendEvents e chatId msg) = [(chatId, msg)]"
  by (simp add: sendEvents_def split: option.splits)

lemma transmitSucceeded_append [simp]:
  "transmitSucceeded (xs @ ys) = (transmitSucceeded xs \<or> transmitSucceeded ys)"
  by (simp add: transmitSucceeded_def)

lemma logFailed_append [simp]: "logFailed (xs @ ys) = (logFailed xs \<or> logFailed ys)"
  by (simp add: logFailed_def)

lemma observers_Nil [simp]: "\<not> transmitSucceeded []" "\<not> logFailed []"
  by (simp_all add: transmitSucceeded_def logFailed_def)

lemma sendEvents_quiet [simp]:
  "\<not> transmitSucceeded (sendEvents e chatId msg)" "\<not> logFailed (sendEvents e chatId msg)"
  "list_all (\<lambda>ev. \<not> isFetch ev \<and> \<not> isTransmit ev) (sendEvents e chatId msg)"
  by (simp_all add: sendEvents_def transmitSucceeded_def logFailed_def split: option.splits)

section \<open>The retry loop\<close>

lemma RetryLoop_effects:
  assumes run: "RetryLoop b operation interval t0 w = Some y"
    and op: "\<forall>s. db (snd (operation s)) = db s \<and>
               (\<exists>ev. trace (snd (operation s)) = trace s @ [ev] \<and> P ev
                  \<and> (Q ev \<longleftrightarrow> \<not> isl (fst (operation s))))"
  shows "db (snd y) = db w \<and>
         (\<exists>evs. trace (snd y) = trace w @ evs \<and> list_all P evs
            \<and> (list_ex Q evs \<longleftrightarrow> \<not> isl (fst y)))"
  using run op
proof (induction rule: RetryLoop.raw_induct [rotated 1, consumes 1])
  case (1 RL b operation interval t0 w y)
  obtain r w1 where o: "operation w = (r, w1)" by (cases "operation w")
  from "1.prems" o obtain ev where d1: "db w1 = db w"
    and t1: "trace w1 = trace w @ [ev]" and p: "P ev" and q: "Q ev \<longleftrightarrow> \<not> isl r"
    by (metis fst_conv snd_conv)
  show ?case
  proof (cases r)
    case (Inr v)
    with "1.hyps" o have "y = (Inr v, w1)" by simp
    with d1 t1 p q Inr show ?thesis by auto
  next
    case (Inl err)
    show ?thesis
    proof (cases "NextBackOff b interval (now w1 - t0)")
      case None
      with "1.hyps" o Inl have "y = (Inl err, w1)" by simp
      with d1 t1 p q Inl show ?thesis by auto
    next
      case (Some d)
      with "1.hyps" o Inl have "RL b operation (interval * Multiplier b) t0 (Sleep d w1) = Some y"
        by simp
      from "1.IH" [OF this "1.prems"]
      obtain evs where "db (snd y) = db w1" and "trace (snd y) = trace w1 @ evs"
        and "list_all P evs" and "list_ex Q evs \<longleftrightarrow> \<not> isl (fst y)"
        by (auto simp: Sleep_def)
      with d1 t1 p q Inl show ?thesis
        by (intro conjI exI [of _ "ev # evs"]) auto
    qed
  qed
qed

lemma downloadTelegramFile_run:
  "downloadTelegramFile e fileId w =
     (case tgGetFile e fileId of
        Inl err \<Rightarrow> Some (Val ([], Some (Wrap ''error getting file info: '' err)),
                     w\<lparr>trace := trace w @ [GetFile fileId]\<rparr>)
      | Inr fl \<Rightarrow>
          (case tgGetFileDirectURL e fl of
             Inl err \<Rightarrow> Some (Val ([], Some (Wrap ''error getting file URL: '' err)),
                          w\<lparr>trace := trace w @ [GetFile fileId, GetFileDirectURL fl]\<rparr>)
           | Inr fileUrl \<Rightarrow>
               (case Retry (httpGetOp e fileUrl) (NewExponentialBackOff e)
                       (w\<lparr>trace := trace w @ [GetFile fileId, GetFileDirectURL fl]\<rparr>) of
                  None \<Rightarrow> None
                | Some (Inl err, w') \<Rightarrow>
                    Some (Val ([], Some (Wrap ''error downloading file: '' err)), w')
                | Some (Inr resp, w') \<Rightarrow>
                    Some (Val (ReadAll (LimitReader resp (MaxFileSize (config e)))), w'))))"
  by (simp add: downloadTelegramFile_def split: sum.splits option.splits prod.splits)

lemma httpGetOp_effects:
  "\<forall>s. db (snd (httpGetOp e fileUrl s)) = db s \<and>
       (\<exists>ev. trace (snd (httpGetOp e fileUrl s)) = trace s @ [ev] \<and> isFetch ev
          \<and> (ev = HttpGet fileUrl None \<longleftrightarrow> \<not> isl (fst (httpGetOp e fileUrl s))))"
  by (auto simp: httpGetOp_def split: prod.splits sum.splits)

lemma downloadTelegramFile_effects:
  assumes "downloadTelegramFile e fileId w = Some (r, w')"
  shows "\<exists>fileBytes err evs. r = Val (fileBytes, err) \<and> db w' = db w
           \<and> trace w' = trace w @ evs \<and> list_all isFetch evs \<and> evs \<noteq> []"
proof (cases "tgGetFile e fileId")
  case (Inl err)
  with assms show ?thesis
    by (auto simp: downloadTelegramFile_run)
next
  case f: (Inr fl)
  show ?thesis
  proof (cases "tgGetFileDirectURL e fl")
    case (Inl err)
    with assms f show ?thesis
      by (auto simp: downloadTelegramFile_run)
  next
    case (Inr fileUrl)
    let ?w2 = "w\<lparr>trace := trace w @ [GetFile fileId, GetFileDirectURL fl]\<rparr>"
    from assms f Inr obtain y where
      y: "Retry (httpGetOp e fileUrl) (NewExponentialBackOff e) ?w2 = Some y"
      and r: "\<exists>fileBytes err. r = Val (fileBytes, err)"
      and w': "w' = snd y"
      by (auto simp: downloadTelegramFile_run ReadAll_def split: option.splits prod.splits sum.splits)
    from RetryLoop_effects [OF y [unfolded Retry_def] httpGetOp_effects]
    obtain evs where "db (snd y) = db w"
      "trace (snd y) = trace w @ GetFile fileId # GetFileDirectURL fl # evs"
      "list_all isFetch evs"
      by auto
    with r w' show ?thesis
      by auto
  qed
qed

lemma sendEmail_run:
  "sendEmail e kindleEmail fileBytes fileName w =
     (case Retry (dialAndSendOp e \<lparr>To = kindleEmail, Sender = BotEmail (config e),
                    Subject = ''BookToKindleBot'', AttachName = fileName,
                    AttachBytes = fileBytes\<rparr>) (NewExponentialBackOff e) w of
        None \<Rightarrow> None
      | Some (Inl err, w') \<Rightarrow> Some (Val (Some (Wrap ''error sending email: '' err)), w')
      | Some (Inr u, w') \<Rightarrow> Some (Val None, w'))"
  by (simp add: sendEmail_def split: sum.splits option.splits prod.splits)

lemma dialAndSendOp_effects:
  "\<forall>s. db (snd (dialAndSendOp e m s)) = db s \<and>
       (\<exists>ev. trace (snd (dialAndSendOp e m s)) = trace s @ [ev] \<and> isTransmit ev
          \<and> (isDelivery ev \<longleftrightarrow> \<not> isl (fst (dialAndSendOp e m s))))"
  by (auto simp: dialAndSendOp_def split: prod.splits option.splits)

lemma sendEmail_effects:
  assumes "sendEmail e kindleEmail fileBytes fileName w = Some (r, w')"
  shows "\<exists>err evs. r = Val err \<and> db w' = db w \<and> trace w' = trace w @ evs
           \<and> list_all isTransmit evs \<and> (transmitSucceeded evs \<longleftrightarrow> err = None)"
proof -
  let ?m = "\<lparr>To = kindleEmail, Sender = BotEmail (config e), Subject = ''BookToKindleBot'',
             AttachName = fileName, AttachBytes = fileBytes\<rparr>"
  from assms obtain y where
    y: "Retry (dialAndSendOp e ?m) (NewExponentialBackOff e) w = Some y"
    and r: "r = Val (case fst y of Inl err \<Rightarrow> Some (Wrap ''error sending email: '' err) | Inr u \<Rightarrow> None)"
    and w': "w' = snd y"
    by (auto simp: sendEmail_run split: option.splits prod.splits sum.splits)
  from RetryLoop_effects [OF y [unfolded Retry_def] dialAndSendOp_effects]
  obtain evs where "db (snd y) = db w" "trace (snd y) = trace w @ evs"
    "list_all isTransmit evs" "list_ex isDelivery evs \<longleftrightarrow> \<not> isl (fst y)"
    by auto
  with r w' show ?thesis
    by (cases "fst y") (auto simp: transmitSucceeded_def)
qed

lemma fetch_not_transmit:
  "list_all isFetch evs \<Longrightarrow> \<not> transmitSucceeded evs \<and> \<not> logFailed evs \<and> notices evs = []"
  by (induction evs rule: notices.induct) (auto simp: transmitSucceeded_def logFailed_def)

lemma transmit_quiet:
  "list_all isTransmit evs \<Longrightarrow> \<not> logFailed evs \<and> notices evs = [] \<and> list_all (\<lambda>ev. \<not> isFetch ev) evs"
  by (induction evs rule: notices.induct) (auto simp: logFailed_def)

lemma bnd_downloadTelegramFile:
  "bnd (downloadTelegramFile e fileId) f w =
     (case downloadTelegramFile e fileId w of
        None \<Rightarrow> None
      | Some (Panic, w1) \<Rightarrow> Some (Panic, w1)
      | Some (Val x, w1) \<Rightarrow> f x w1)"
  by (simp add: bnd_def)

lemma bnd_sendEmail:
  "bnd (sendEmail e kindleEmail fileBytes fileName) f w =
     (case sendEmail e kindleEmail fileBytes fileName w of
        None \<Rightarrow> None
      | Some (Panic, w1) \<Rightarrow> Some (Panic, w1)
      | Some (Val x, w1) \<Rightarrow> f x w1)"
  by (simp add: bnd_def)

lemma handleDocument_valid_run:
  assumes m: "Message update = Some m" and u: "From m = Some u" and c: "Chat m = Some c"
    and d: "Document m = Some doc"
    and k: "GetKindleEmail e (UserID u) w = Inr kindleEmail"
    and mime: "lookupBool supportedMimeTypes (MimeType doc)"
    and size: "\<not> FileSize doc > MaxFileSize (config e)"
    and run: "handleDocument e update w = Some (r, w')"
  obtains
    (fetchFailed) fevs err where "r = Val ()" and "list_all isFetch fevs" and "db w' = db w"
      and "trace w' = trace w
           @ sendEvents e (ChatID c) ''Downloading file...'' @ fevs
           @ SlogError ''error downloading file''
               [ErrAttr ''error'' err, IntAttr ''user_id'' (UserID u), StrAttr ''file_id'' (FileID doc)]
           # sendEvents e (ChatID c) ''Error downloading file, please try again later''"
  | (transmitFailed) fevs tevs err where "r = Val ()" and "list_all isFetch fevs"
      and "list_all isTransmit tevs" and "\<not> transmitSucceeded tevs" and "db w' = db w"
      and "trace w' = trace w
           @ sendEvents e (ChatID c) ''Downloading file...'' @ fevs
           @ sendEvents e (ChatID c) ''Download successful. Sending file to Kindle...'' @ tevs
           @ SlogError ''error sending email''
               [ErrAttr ''error'' err, IntAttr ''user_id'' (UserID u),
                StrAttr ''kindle_email'' kindleEmail]
           # sendEvents e (ChatID c) ''Error sending email, please try again later''"
  | (insertFailed) fevs tevs err where "r = Val ()" and "list_all isFetch fevs"
      and "list_all isTransmit tevs" and "transmitSucceeded tevs"
      and "insertFails e (UserID u) (FileName doc) (FileSize doc) = Some err"
      and "db w' = db w"
      and "trace w' = trace w
           @ sendEvents e (ChatID c) ''Downloading file...'' @ fevs
           @ sendEvents e (ChatID c) ''Download successful. Sending file to Kindle...'' @ tevs
           @ SlogError ''error logging sent book''
               [ErrAttr ''error'' err, IntAttr ''user_id'' (UserID u),
                StrAttr ''file_name'' (FileName doc)]
           # sendEvents e (ChatID c) ''Book sent to Kindle successfully''"
  | (delivered) fevs tevs where "r = Val ()" and "list_all isFetch fevs"
      and "list_all isTransmit tevs" and "transmitSucceeded tevs"
      and "insertFails e (UserID u) (FileName doc) (FileSize doc) = None"
      and "db w' = (db w)\<lparr>sent_books := sent_books (db w) @
             [\<lparr>book_name = FileName doc, file_size = FileSize doc, telegram_id = UserID u\<rparr>]\<rparr>"
      and "trace w' = trace w
           @ sendEvents e (ChatID c) ''Downloading file...'' @ fevs
           @ sendEvents e (ChatID c) ''Download successful. Sending file to Kindle...'' @ tevs
           @ sendEvents e (ChatID c) ''Book sent to Kindle successfully''"
proof -
  let ?wA = "w\<lparr>trace := trace w @ sendEvents e (ChatID c) ''Downloading file...''\<rparr>"
  note unf = handleDocument_def m u c d k mime size fromID_def chatID_def document_def
    bnd_downloadTelegramFile bnd_sendEmail sendMessage_run logSentBook_def
  from run obtain x w1 where dl: "downloadTelegramFile e (FileID doc) ?wA = Some (x, w1)"
    by (auto simp: unf split: option.splits)
  from downloadTelegramFile_effects [OF dl]
  obtain fileBytes derr fevs where x: "x = Val (fileBytes, derr)" and db1: "db w1 = db w"
    and tr1: "trace w1 = trace w @ sendEvents e (ChatID c) ''Downloading file...'' @ fevs"
    and fevs: "list_all isFetch fevs"
    by auto
  show thesis
  proof (cases derr)
    case (Some err)
    with run dl x db1 tr1 have "r = Val ()" and "db w' = db w"
      and "trace w' = trace w @ sendEvents e (ChatID c) ''Downloading file...'' @ fevs
           @ SlogError ''error downloading file''
               [ErrAttr ''error'' err, IntAttr ''user_id'' (UserID u), StrAttr ''file_id'' (FileID doc)]
           # sendEvents e (ChatID c) ''Error downloading file, please try again later''"
      by (auto simp: unf)
    with fevs show thesis by (intro fetchFailed)
  next
    case None
    let ?wB = "w1\<lparr>trace := trace w1 @ sendEvents e (ChatID c) ''Download successful. Sending file to Kindle...''\<rparr>"
    from run dl x None obtain y w2 where
      se: "sendEmail e kindleEmail fileBytes (FileName doc) ?wB = Some (y, w2)"
      by (auto simp: unf split: option.splits)
    from sendEmail_effects [OF se]
    obtain serr tevs where y: "y = Val serr" and db2: "db w2 = db w"
      and tr2: "trace w2 = trace w @ sendEvents e (ChatID c) ''Downloading file...'' @ fevs
          @ sendEvents e (ChatID c) ''Download successful. Sending file to Kindle...'' @ tevs"
      and tevs: "list_all isTransmit tevs" and ok: "transmitSucceeded tevs \<longleftrightarrow> serr = None"
      using db1 tr1 by auto
    show thesis
    proof (cases serr)
      case (Some err)
      with run dl x None se y db2 tr2 have "r = Val ()" and "db w' = db w"
        and "trace w' = trace w @ sendEvents e (ChatID c) ''Downloading file...'' @ fevs
                @ sendEvents e (ChatID c) ''Download successful. Sending file to Kindle...'' @ tevs
                @ SlogError ''error sending email''
                    [ErrAttr ''error'' err, IntAttr ''user_id'' (UserID u),
                     StrAttr ''kindle_email'' kindleEmail]
                # sendEvents e (ChatID c) ''Error sending email, please try again later''"
        by (auto simp: unf)
      moreover from ok Some have "\<not> transmitSucceeded tevs" by simp
      ultimately show thesis using fevs tevs by (intro transmitFailed)
    next
      case sent: None
      with ok have ts: "transmitSucceeded tevs" by simp
      show thesis
      proof (cases "insertFails e (UserID u) (FileName doc) (FileSize doc)")
        case (Some err)
        with run dl x None se y sent db2 tr2 have "r = Val ()" and "db w' = db w"
          and "trace w' = trace w
                      @ sendEvents e (ChatID c) ''Downloading file...'' @ fevs
                      @ sendEvents e (ChatID c) ''Download successful. Sending file to Kindle...'' @ tevs
                      @ SlogError ''error logging sent book''
                          [ErrAttr ''error'' err, IntAttr ''user_id'' (UserID u),
                           StrAttr ''file_name'' (FileName doc)]
                      # sendEvents e (ChatID c) ''Book sent to Kindle successfully''"
          by (auto simp: unf)
        with Some ts fevs tevs show thesis by (intro insertFailed)
      next
        case ins: None
        with run dl x None se y sent db2 tr2 have "r = Val ()"
          and "db w' = (db w)\<lparr>sent_books := sent_books (db w) @
                        [\<lparr>book_name = FileName doc, file_size = FileSize doc,
                          telegram_id = UserID u\<rparr>]\<rparr>"
          and "trace w' = trace w
                      @ sendEvents e (ChatID c) ''Downloading file...'' @ fevs
                      @ sendEvents e (ChatID c) ''Download successful. Sending file to Kindle...'' @ tevs
                      @ sendEvents e (ChatID c) ''Book sent to Kindle successfully''"
          by (auto simp: unf)
        with ins ts fevs tevs show thesis by (intro delivered)
      qed
    qed
  qed
qed

lemma bnd_deref: "bnd (deref p) f w = (case p of None \<Rightarrow> Some (Panic, w) | Some x \<Rightarrow> f x w)"
  by (cases p) simp_all

lemma supported_iff:
  "lookupBool supportedMimeTypes t \<longleftrightarrow>
     t \<in> {''application/pdf'', ''application/epub+zip'', ''application/vnd.amazon.ebook'',
          ''application/x-mobipocket-ebook''}"
  by (simp add: lookupBool_def supportedMimeTypes_def)

lemma bnd_fromID:
  "bnd (fromID update) f w =
     (case Message update of
        None \<Rightarrow> Some (Panic, w)
      | Some m \<Rightarrow> (case From m of None \<Rightarrow> Some (Panic, w) | Some u \<Rightarrow> f (UserID u) w))"
  by (simp add: fromID_def bnd_def deref_def ret_def split: option.splits)

lemma bnd_chatID:
  "bnd (chatID update) f w =
     (case Message update of
        None \<Rightarrow> Some (Panic, w)
      | Some m \<Rightarrow> (case Chat m of None \<Rightarrow> Some (Panic, w) | Some c \<Rightarrow> f (ChatID c) w))"
  by (simp add: chatID_def bnd_def deref_def ret_def split: option.splits)

lemma bnd_document:
  "bnd (document update) f w =
     (case Message update of
        None \<Rightarrow> Some (Panic, w)
      | Some m \<Rightarrow> (case Document m of None \<Rightarrow> Some (Panic, w) | Some doc \<Rightarrow> f doc w))"
  by (simp add: document_def bnd_def deref_def split: option.splits)

lemma handleDocument_early:
  assumes run: "handleDocument e update w = Some (r, w')"
    and early: "\<not> (\<exists>m u c doc k. Message update = Some m \<and> From m = Some u \<and> Chat m = Some c
        \<and> Document m = Some doc \<and> GetKindleEmail e (UserID u) w = Inr k
        \<and> lookupBool supportedMimeTypes (MimeType doc)
        \<and> \<not> FileSize doc > MaxFileSize (config e))"
  shows "db w' = db w \<and> (\<exists>evs. trace w' = trace w @ evs
           \<and> list_all (\<lambda>ev. \<not> isFetch ev \<and> \<not> isTransmit ev) evs
           \<and> \<not> transmitSucceeded evs \<and> \<not> logFailed evs)"
proof -
  note unf = handleDocument_def bnd_fromID bnd_chatID bnd_document sendMessage_run
  show ?thesis
  proof (cases "Message update")
    case None
    with run show ?thesis by (simp add: unf)
  next
    case m: (Some m)
    show ?thesis
    proof (cases "From m")
      case None
      with run m show ?thesis by (simp add: unf)
    next
      case u: (Some u)
      show ?thesis
      proof (cases "GetKindleEmail e (UserID u) w")
        case (Inl err)
        with run m u show ?thesis
          by (cases "Chat m") (auto simp: unf)
      next
        case k: (Inr k)
        show ?thesis
        proof (cases "Document m")
          case None
          with run m u k show ?thesis by (simp add: unf)
        next
          case d: (Some doc)
          show ?thesis
          proof (cases "Chat m")
            case None
            with run m u k d show ?thesis by (auto simp: unf split: if_splits)
          next
            case c: (Some c)
            from early m u k d c
            have "\<not> lookupBool supportedMimeTypes (MimeType doc) \<or> FileSize doc > MaxFileSize (config e)"
              by blast
            with run m u k d c show ?thesis by (auto simp: unf split: if_splits)
          qed
        qed
      qed
    qed
  qed
qed


lemma GetKindleEmail_error:
  "GetKindleEmail e telegramId w = Inl err \<longleftrightarrow>
     queryFails e telegramId = Some err
     \<or> (queryFails e telegramId = None \<and> users (db w) telegramId = None \<and> err = ErrNoRows)"
  by (auto simp: GetKindleEmail_def split: option.splits)

text \<open>
  C10: when the destination lookup \<open>GetKindleEmail\<close> returns an error, whichever it is (no
  row for the user, or a failure of the query), \<open>handleDocument\<close> sends the notice to
  set the address first and returns: nothing else happens, and the outcome does not
  depend on the error.
\<close>

theorem handleDocument_lookup_error:
  assumes "Message update = Some m" and "From m = Some u" and "Chat m = Some c"
    and "GetKindleEmail e (UserID u) w = Inl err"
  shows "handleDocument e update w =
           Some (Val (), w\<lparr>trace := trace w @ sendEvents e (ChatID c)
             ''Please set your Kindle email address first using /set_kindle_email''\<rparr>)"
  using assms by (simp add: handleDocument_def bnd_fromID bnd_chatID sendMessage_run)

theorem handleDocument_lookup_error_witness:
  "GetKindleEmail (calmEnv\<lparr>queryFails := (\<lambda>telegramId. Some (ErrText ''database is locked''))\<rparr>)
      7 configuredWorld = Inl (ErrText ''database is locked'')
   \<and> users (db configuredWorld) 7 = Some ''x@kindle.com''
   \<and> handleDocument (calmEnv\<lparr>queryFails := (\<lambda>telegramId. Some (ErrText ''database is locked''))\<rparr>)
        \<lparr>Message = Some (documentMessage pdfDocument)\<rparr> configuredWorld =
      Some (Val (), configuredWorld\<lparr>trace :=
        [Send 42 ''Please set your Kindle email address first using /set_kindle_email'']\<rparr>)"
proof -
  let ?e = "calmEnv\<lparr>queryFails := (\<lambda>telegramId. Some (ErrText ''database is locked''))\<rparr>"
  have g: "GetKindleEmail ?e 7 configuredWorld = Inl (ErrText ''database is locked'')"
    by (simp add: GetKindleEmail_def calmEnv_def)
  have "handleDocument ?e \<lparr>Message = Some (documentMessage pdfDocument)\<rparr> configuredWorld =
      Some (Val (), configuredWorld\<lparr>trace := trace configuredWorld @ sendEvents ?e 42
             ''Please set your Kindle email address first using /set_kindle_email''\<rparr>)"
    using handleDocument_lookup_error [of "\<lparr>Message = Some (documentMessage pdfDocument)\<rparr>"
        "documentMessage pdfDocument" "\<lparr>UserID = 7, FirstName = ''Ada''\<rparr>" "\<lparr>ChatID = 42\<rparr>"
        ?e configuredWorld "ErrText ''database is locked''"] g
    by (simp add: documentMessage_def)
  then show ?thesis using g
    by (simp add: sendEvents_def calmEnv_def configuredWorld_def)
qed

text \<open>
  C3: a document whose declared mime type is not one of the four of the allow-list, or
  whose declared size is above \<open>MaxFileSize\<close>, never reaches the Fetch step:
  \<open>handleDocument\<close> returns, and what it did contains no call of the Fetch step (the
  file calls of the Telegram API, the HTTP GET) and none of the Transmit step; the
  stores are unchanged.
\<close>

theorem handleDocument_rejects_before_fetch:
  assumes "Message update = Some m" and "Document m = Some doc"
    and "MimeType doc \<notin> {''application/pdf'', ''application/epub+zip'',
            ''application/vnd.amazon.ebook'', ''application/x-mobipocket-ebook''}
         \<or> FileSize doc > MaxFileSize (config e)"
  shows "\<exists>r w' evs. handleDocument e update w = Some (r, w') \<and> trace w' = trace w @ evs
           \<and> list_all (\<lambda>ev. \<not> isFetch ev \<and> \<not> isTransmit ev) evs \<and> db w' = db w"
proof -
  from assms(3) have rej: "\<not> lookupBool supportedMimeTypes (MimeType doc)
      \<or> FileSize doc > MaxFileSize (config e)"
    by (simp only: supported_iff) 
  with assms(1,2) have "\<exists>r w'. handleDocument e update w = Some (r, w')"
    by (auto simp: handleDocument_def bnd_fromID bnd_chatID bnd_document sendMessage_run
          split: option.splits sum.splits)
  then obtain r w' where run: "handleDocument e update w = Some (r, w')"
    by blast
  have "\<not> (\<exists>m u c doc k. Message update = Some m \<and> From m = Some u \<and> Chat m = Some c
        \<and> Document m = Some doc \<and> GetKindleEmail e (UserID u) w = Inr k
        \<and> lookupBool supportedMimeTypes (MimeType doc)
        \<and> \<not> FileSize doc > MaxFileSize (config e))"
    using rej assms(1,2) by auto
  from handleDocument_early [OF run this] run show ?thesis by blast
qed

theorem handleDocument_rejects_before_fetch_witness:
  "FileSize (pdfDocument\<lparr>FileSize := 25 * 1024 * 1024\<rparr>) > MaxFileSize (config calmEnv)
   \<and> (\<exists>r w' evs.
         handleDocument calmEnv
           \<lparr>Message = Some (documentMessage (pdfDocument\<lparr>FileSize := 25 * 1024 * 1024\<rparr>))\<rparr>
           configuredWorld = Some (r, w')
         \<and> trace w' = trace configuredWorld @ evs
         \<and> list_all (\<lambda>ev. \<not> isFetch ev \<and> \<not> isTransmit ev) evs \<and> db w' = db configuredWorld)"
proof -
  let ?doc = "pdfDocument\<lparr>FileSize := 25 * 1024 * 1024\<rparr>"
  have big: "FileSize ?doc > MaxFileSize (config calmEnv)"
    by (simp add: pdfDocument_def calmEnv_def mainConfig_def)
  have "Document (documentMessage ?doc) = Some ?doc"
    by (simp add: documentMessage_def)
  from handleDocument_rejects_before_fetch
    [of "\<lparr>Message = Some (documentMessage ?doc)\<rparr>" "documentMessage ?doc" ?doc calmEnv
       configuredWorld, OF _ this] big
  show ?thesis by simp
qed


lemma transmitSucceeded_Cons_Slog [simp]:
  "transmitSucceeded (SlogError msg attrs # evs) = transmitSucceeded evs"
  by (simp add: transmitSucceeded_def)

lemma logFailed_Cons_Slog [simp]:
  "logFailed (SlogError msg attrs # evs) = (msg = ''error logging sent book'' \<or> logFailed evs)"
  by (simp add: logFailed_def)

lemma notices_Cons_Slog [simp]: "notices (SlogError msg attrs # evs) = notices evs"
  by simp

text \<open>
  C1 (as amended): when \<open>handleDocument\<close> returns, the \<open>users\<close> table is unchanged, and a
  row was appended to \<open>sent_books\<close> if and only if the Transmit step succeeded (an SMTP
  delivery returned no error) and the insert of \<open>logSentBook\<close> did not fail; the row is
  then the one of this document and user, and it is the only one. Every failure at or
  before Transmit leaves \<open>sent_books\<close> as it was.
\<close>

theorem delivery_record_iff_transmit_and_insert:
  assumes run: "handleDocument e update w = Some (r, w')"
  shows "\<exists>evs. trace w' = trace w @ evs \<and> users (db w') = users (db w) \<and>
     (if transmitSucceeded evs \<and> \<not> logFailed evs
      then \<exists>m u doc. Message update = Some m \<and> From m = Some u \<and> Document m = Some doc
             \<and> insertFails e (UserID u) (FileName doc) (FileSize doc) = None
             \<and> sent_books (db w') = sent_books (db w) @
                 [\<lparr>book_name = FileName doc, file_size = FileSize doc, telegram_id = UserID u\<rparr>]
      else sent_books (db w') = sent_books (db w)
         \<and> (transmitSucceeded evs \<longrightarrow>
              (\<exists>m u doc err. Message update = Some m \<and> From m = Some u \<and> Document m = Some doc
                 \<and> insertFails e (UserID u) (FileName doc) (FileSize doc) = Some err)))"
proof (cases "\<exists>m u c doc k. Message update = Some m \<and> From m = Some u \<and> Chat m = Some c
        \<and> Document m = Some doc \<and> GetKindleEmail e (UserID u) w = Inr k
        \<and> lookupBool supportedMimeTypes (MimeType doc)
        \<and> \<not> FileSize doc > MaxFileSize (config e)")
  case False
  from handleDocument_early [OF run False] show ?thesis by auto
next
  case True
  then obtain m u c doc k where p: "Message update = Some m" "From m = Some u" "Chat m = Some c"
    "Document m = Some doc" "GetKindleEmail e (UserID u) w = Inr k"
    "lookupBool supportedMimeTypes (MimeType doc)" "\<not> FileSize doc > MaxFileSize (config e)"
    by blast
  from p(1-4) have present: "\<exists>m u doc. Message update = Some m \<and> From m = Some u
      \<and> Document m = Some doc" by blast
  from p run show ?thesis
  proof (cases rule: handleDocument_valid_run)
    case (fetchFailed fevs err)
    then show ?thesis using fetch_not_transmit [of fevs] by simp
  next
    case (transmitFailed fevs tevs err)
    then show ?thesis using fetch_not_transmit [of fevs] transmit_quiet [of tevs] by simp
  next
    case (insertFailed fevs tevs err)
    then show ?thesis using fetch_not_transmit [of fevs] transmit_quiet [of tevs] p(1,2,4)
      by simp
  next
    case (delivered fevs tevs)
    then show ?thesis using fetch_not_transmit [of fevs] transmit_quiet [of tevs] p(1,2,4)
      by simp
  qed
qed

lemma Retry_first_success:
  "\<not> isl (fst (operation w)) \<Longrightarrow> Retry operation b w = Some (operation w)"
  by (cases "operation w"; cases "fst (operation w)") (auto simp: Retry_def RetryLoop.simps)

lemmas run_simps = handleDocument_def bnd_fromID bnd_chatID bnd_document sendMessage_run
  bnd_downloadTelegramFile downloadTelegramFile_run bnd_sendEmail sendEmail_run
  Retry_first_success httpGetOp_def dialAndSendOp_def sendEvents_def logSentBook_def
  GetKindleEmail_def lookupBool_def supportedMimeTypes_def ReadAll_def LimitReader_def
  calmEnv_def mainConfig_def configuredWorld_def pdfDocument_def documentMessage_def
  pdfEmail_def

lemma locked_run:
  "handleDocument lockedEnv \<lparr>Message = Some (documentMessage pdfDocument)\<rparr> configuredWorld =
     Some (Val (), afterLockedDelivery)"
  by (simp add: run_simps lockedEnv_def afterLockedDelivery_def)

lemma calm_run:
  "handleDocument calmEnv \<lparr>Message = Some (documentMessage pdfDocument)\<rparr> configuredWorld =
     Some (Val (), afterDelivery)"
  by (simp add: run_simps afterDelivery_def)

theorem delivery_record_iff_transmit_and_insert_witness:
  "handleDocument calmEnv \<lparr>Message = Some (documentMessage pdfDocument)\<rparr> configuredWorld =
     Some (Val (), afterDelivery)
   \<and> (\<exists>evs. trace afterDelivery = trace configuredWorld @ evs
         \<and> users (db afterDelivery) = users (db configuredWorld)
         \<and> transmitSucceeded evs \<and> \<not> logFailed evs
         \<and> sent_books (db afterDelivery) = sent_books (db configuredWorld) @
              [\<lparr>book_name = ''book.pdf'', file_size = 3, telegram_id = 7\<rparr>])"
proof -
  from delivery_record_iff_transmit_and_insert [OF calm_run]
  obtain evs where evs: "trace afterDelivery = trace configuredWorld @ evs"
    and u: "users (db afterDelivery) = users (db configuredWorld)"
    by blast
  from evs have "evs = trace afterDelivery"
    by (simp add: configuredWorld_def)
  then have "transmitSucceeded evs \<and> \<not> logFailed evs"
    by (simp add: afterDelivery_def transmitSucceeded_def logFailed_def)
  with evs u calm_run show ?thesis
    by (auto simp: afterDelivery_def configuredWorld_def)
qed

text \<open>
  C1 as stated fails: with a store that refuses the insert, the SMTP delivery succeeds
  and no row is created.
\<close>

theorem delivery_record_iff_transmit_counterexample:
  "handleDocument lockedEnv \<lparr>Message = Some (documentMessage pdfDocument)\<rparr> configuredWorld =
     Some (Val (), afterLockedDelivery)
   \<and> transmitSucceeded (trace afterLockedDelivery)
   \<and> sent_books (db afterLockedDelivery) = sent_books (db configuredWorld)"
  by (simp add: locked_run) (simp add: afterLockedDelivery_def transmitSucceeded_def)

text \<open>The retried calls send no notice and leave the store as it is.\<close>

lemma Retry_httpGet_quiet:
  assumes "Retry (httpGetOp e fileUrl) b w = Some (x, w1)"
  shows "db w1 = db w \<and> notices (trace w1) = notices (trace w)"
proof -
  from RetryLoop_effects [OF assms [unfolded Retry_def] httpGetOp_effects]
  obtain evs where "db w1 = db w" "trace w1 = trace w @ evs" "list_all isFetch evs" by auto
  then show ?thesis using fetch_not_transmit [of evs] by simp
qed

lemma Retry_dialAndSend_quiet:
  assumes "Retry (dialAndSendOp e m) b w = Some (x, w1)"
  shows "db w1 = db w \<and> notices (trace w1) = notices (trace w)"
proof -
  from RetryLoop_effects [OF assms [unfolded Retry_def] dialAndSendOp_effects]
  obtain evs where "db w1 = db w" "trace w1 = trace w @ evs" "list_all isTransmit evs" by auto
  then show ?thesis using transmit_quiet [of evs] by simp
qed

lemmas pipeline_simps = handleDocument_def bnd_fromID bnd_chatID bnd_document sendMessage_run
  bnd_downloadTelegramFile downloadTelegramFile_run bnd_sendEmail sendEmail_run logSentBook_def
  ReadAll_def fetchStart_def transmitStart_def kindleMail_def

text \<open>
  C7: the document passes validation, the two file calls of the Telegram API answer, the
  retried GET returns a response whose body is read without error, the retried SMTP
  delivery returns success, and the insert of \<open>logSentBook\<close> fails with any error. Then
  \<open>handleDocument\<close> returns normally; after the delivery it only adds the line
  "error logging sent book" to the operators' log and sends "Book sent to Kindle
  successfully". The notices of the run are the three of a successful delivery, none
  holds the error, and the store is as before.
\<close>

theorem log_failure_still_reports_delivery:
  assumes "Message update = Some m" and "From m = Some u" and "Chat m = Some c"
    and "Document m = Some doc"
    and "GetKindleEmail e (UserID u) w = Inr kindleEmail"
    and "lookupBool supportedMimeTypes (MimeType doc)"
    and "\<not> FileSize doc > MaxFileSize (config e)"
    and "tgGetFile e (FileID doc) = Inr fl" and "tgGetFileDirectURL e fl = Inr fileUrl"
    and get: "Retry (httpGetOp e fileUrl) (NewExponentialBackOff e) (fetchStart e c doc fl w)
           = Some (Inr resp, w1)"
    and "readErr (LimitReader resp (MaxFileSize (config e))) = None"
    and smtp: "Retry (dialAndSendOp e
             (kindleMail e kindleEmail doc (content (LimitReader resp (MaxFileSize (config e))))))
           (NewExponentialBackOff e) (transmitStart e c w1) = Some (Inr (), w2)"
    and "insertFails e (UserID u) (FileName doc) (FileSize doc) = Some err"
  shows "handleDocument e update w =
      Some (Val (), w2\<lparr>trace := trace w2
        @ SlogError ''error logging sent book''
            [ErrAttr ''error'' err, IntAttr ''user_id'' (UserID u),
             StrAttr ''file_name'' (FileName doc)]
        # sendEvents e (ChatID c) ''Book sent to Kindle successfully''\<rparr>)
    \<and> notices (trace w2
        @ SlogError ''error logging sent book''
            [ErrAttr ''error'' err, IntAttr ''user_id'' (UserID u),
             StrAttr ''file_name'' (FileName doc)]
        # sendEvents e (ChatID c) ''Book sent to Kindle successfully'')
      = notices (trace w) @
          [(ChatID c, ''Downloading file...''),
           (ChatID c, ''Download successful. Sending file to Kindle...''),
           (ChatID c, ''Book sent to Kindle successfully'')]
    \<and> db w2 = db w"
proof -
  from Retry_httpGet_quiet [OF get]
  have q1: "db w1 = db w" "notices (trace w1) = notices (trace w) @ [(ChatID c, ''Downloading file...'')]"
    by (simp_all add: fetchStart_def)
  from Retry_dialAndSend_quiet [OF smtp] q1
  have q2: "db w2 = db w" "notices (trace w2) = notices (trace w) @
      [(ChatID c, ''Downloading file...''),
       (ChatID c, ''Download successful. Sending file to Kindle...'')]"
    by (simp_all add: transmitStart_def)
  have "handleDocument e update w =
      Some (Val (), w2\<lparr>trace := trace w2
        @ SlogError ''error logging sent book''
            [ErrAttr ''error'' err, IntAttr ''user_id'' (UserID u),
             StrAttr ''file_name'' (FileName doc)]
        # sendEvents e (ChatID c) ''Book sent to Kindle successfully''\<rparr>)"
    using assms by (simp add: pipeline_simps)
  with q2 show ?thesis by simp
qed

theorem log_failure_still_reports_delivery_witness:
  "insertFails lockedEnv 7 ''book.pdf'' 3 = Some (ErrText ''database is locked'')
   \<and> handleDocument lockedEnv \<lparr>Message = Some (documentMessage pdfDocument)\<rparr> configuredWorld =
       Some (Val (), afterLockedDelivery)
   \<and> notices (trace afterLockedDelivery) =
        [(42, ''Downloading file...''),
         (42, ''Download successful. Sending file to Kindle...''),
         (42, ''Book sent to Kindle successfully'')]
   \<and> db afterLockedDelivery = db configuredWorld"
proof -
  let ?u = "\<lparr>UserID = 7, FirstName = ''Ada''\<rparr>"
  let ?c = "\<lparr>ChatID = 42\<rparr>"
  let ?url = "''https://files.example/f1''"
  let ?resp = "\<lparr>content = [1, 2, 3 :: byte], readErr = None\<rparr>"
  let ?s1 = "fetchStart lockedEnv ?c pdfDocument ''f1'' configuredWorld"
  let ?w1 = "snd (httpGetOp lockedEnv ?url ?s1)"
  let ?mail = "kindleMail lockedEnv ''x@kindle.com'' pdfDocument
      (content (LimitReader ?resp (MaxFileSize (config lockedEnv))))"
  let ?w2 = "snd (dialAndSendOp lockedEnv ?mail (transmitStart lockedEnv ?c ?w1))"
  note defs = lockedEnv_def calmEnv_def mainConfig_def pdfDocument_def configuredWorld_def
  have ins: "insertFails lockedEnv (UserID ?u) (FileName pdfDocument) (FileSize pdfDocument)
      = Some (ErrText ''database is locked'')"
    by (simp add: lockedEnv_def)
  have get: "Retry (httpGetOp lockedEnv ?url) (NewExponentialBackOff lockedEnv) ?s1
      = Some (Inr ?resp, ?w1)"
    by (simp add: Retry_first_success httpGetOp_def defs)
  have smtp: "Retry (dialAndSendOp lockedEnv ?mail) (NewExponentialBackOff lockedEnv)
      (transmitStart lockedEnv ?c ?w1) = Some (Inr (), ?w2)"
    by (simp add: Retry_first_success dialAndSendOp_def defs)
  have fin: "?w2\<lparr>trace := trace ?w2
        @ SlogError ''error logging sent book''
            [ErrAttr ''error'' (ErrText ''database is locked''), IntAttr ''user_id'' (UserID ?u),
             StrAttr ''file_name'' (FileName pdfDocument)]
        # sendEvents lockedEnv (ChatID ?c) ''Book sent to Kindle successfully''\<rparr>
      = afterLockedDelivery"
    by (simp add: afterLockedDelivery_def dialAndSendOp_def httpGetOp_def transmitStart_def
          fetchStart_def kindleMail_def sendEvents_def LimitReader_def pdfEmail_def defs)
  from log_failure_still_reports_delivery
    [where update = "\<lparr>Message = Some (documentMessage pdfDocument)\<rparr>"
       and m = "documentMessage pdfDocument" and u = ?u and c = ?c and doc = pdfDocument
       and e = lockedEnv and w = configuredWorld and kindleEmail = "''x@kindle.com''"
       and fl = "''f1''" and fileUrl = ?url and resp = ?resp and ?w1.0 = ?w1 and ?w2.0 = ?w2
       and err = "ErrText ''database is locked''", OF _ _ _ _ _ _ _ _ _ get _ smtp ins]
  have "handleDocument lockedEnv \<lparr>Message = Some (documentMessage pdfDocument)\<rparr> configuredWorld =
       Some (Val (), afterLockedDelivery)
     \<and> notices (trace afterLockedDelivery) = notices (trace configuredWorld) @
          [(ChatID ?c, ''Downloading file...''),
           (ChatID ?c, ''Download successful. Sending file to Kindle...''),
           (ChatID ?c, ''Book sent to Kindle successfully'')]
     \<and> db ?w2 = db configuredWorld"
    unfolding fin [symmetric]
    by (simp add: documentMessage_def GetKindleEmail_def lookupBool_def supportedMimeTypes_def
          LimitReader_def defs)
  then show ?thesis
    by (simp add: lockedEnv_def) (simp add: afterLockedDelivery_def configuredWorld_def)
qed

section \<open>The size ceiling of the Fetch step\<close>

lemma LimitReader_length:
  "0 \<le> n \<Longrightarrow> int (length (content (LimitReader r n))) \<le> n"
  by (simp add: LimitReader_def)

text \<open>
  C9: \<open>downloadTelegramFile\<close> never returns more than \<open>MaxFileSize\<close> bytes; and when the
  retried GET returned a response whose body is longer than \<open>MaxFileSize\<close>, it returns
  exactly the first \<open>MaxFileSize\<close> bytes of the body, without error. The declared size
  of the document is not an argument of the function.
\<close>

theorem downloadTelegramFile_caps_bytes:
  assumes cap: "0 \<le> MaxFileSize (config e)"
  shows "(downloadTelegramFile e fileId w = Some (Val (fileBytes, err), w')
            \<longrightarrow> int (length fileBytes) \<le> MaxFileSize (config e))
    \<and> (tgGetFile e fileId = Inr fl \<and> tgGetFileDirectURL e fl = Inr fileUrl
         \<and> Retry (httpGetOp e fileUrl) (NewExponentialBackOff e)
              (w\<lparr>trace := trace w @ [GetFile fileId, GetFileDirectURL fl]\<rparr>) = Some (Inr resp, w2)
         \<and> MaxFileSize (config e) < int (length (content resp))
       \<longrightarrow> downloadTelegramFile e fileId w =
             Some (Val (take (nat (MaxFileSize (config e))) (content resp), None), w2)
           \<and> int (length (take (nat (MaxFileSize (config e))) (content resp)))
               = MaxFileSize (config e))"
proof (intro conjI impI)
  assume run: "downloadTelegramFile e fileId w = Some (Val (fileBytes, err), w')"
  show "int (length fileBytes) \<le> MaxFileSize (config e)"
  proof (cases "tgGetFile e fileId")
    case (Inl a)
    with run cap show ?thesis by (auto simp: downloadTelegramFile_run)
  next
    case f: (Inr fl')
    show ?thesis
    proof (cases "tgGetFileDirectURL e fl'")
      case (Inl a)
      with run cap f show ?thesis by (auto simp: downloadTelegramFile_run)
    next
      case (Inr url)
      with run cap f show ?thesis
        using LimitReader_length [OF cap]
        by (auto simp: downloadTelegramFile_run ReadAll_def split: option.splits sum.splits)
    qed
  qed
next
  assume a: "tgGetFile e fileId = Inr fl \<and> tgGetFileDirectURL e fl = Inr fileUrl
         \<and> Retry (httpGetOp e fileUrl) (NewExponentialBackOff e)
              (w\<lparr>trace := trace w @ [GetFile fileId, GetFileDirectURL fl]\<rparr>) = Some (Inr resp, w2)
         \<and> MaxFileSize (config e) < int (length (content resp))"
  with cap show "downloadTelegramFile e fileId w =
             Some (Val (take (nat (MaxFileSize (config e))) (content resp), None), w2)"
    by (simp add: downloadTelegramFile_run ReadAll_def LimitReader_def)
  from a cap show "int (length (take (nat (MaxFileSize (config e))) (content resp)))
               = MaxFileSize (config e)"
    by (auto simp: min_def)
qed

theorem downloadTelegramFile_caps_bytes_witness:
  "0 \<le> MaxFileSize (config tinyCapEnv)
   \<and> MaxFileSize (config tinyCapEnv) < int (length [1, 2, 3 :: byte])
   \<and> downloadTelegramFile tinyCapEnv ''f1'' configuredWorld =
       Some (Val ([1, 2], None), configuredWorld\<lparr>now := 1, trace :=
         [GetFile ''f1'', GetFileDirectURL ''f1'', HttpGet ''https://files.example/f1'' None]\<rparr>)"
proof -
  let ?w2 = "configuredWorld\<lparr>now := 1, trace :=
         [GetFile ''f1'', GetFileDirectURL ''f1'', HttpGet ''https://files.example/f1'' None]\<rparr>"
  let ?resp = "\<lparr>content = [1, 2, 3 :: byte], readErr = None\<rparr>"
  have cap: "0 \<le> MaxFileSize (config tinyCapEnv)"
    by (simp add: tinyCapEnv_def calmEnv_def)
  have r: "Retry (httpGetOp tinyCapEnv ''https://files.example/f1'') (NewExponentialBackOff tinyCapEnv)
      (configuredWorld\<lparr>trace := trace configuredWorld @ [GetFile ''f1'', GetFileDirectURL ''f1'']\<rparr>)
      = Some (Inr ?resp, ?w2)"
    by (simp add: Retry_first_success httpGetOp_def tinyCapEnv_def calmEnv_def configuredWorld_def)
  have "tgGetFile tinyCapEnv ''f1'' = Inr ''f1''
    \<and> tgGetFileDirectURL tinyCapEnv ''f1'' = Inr ''https://files.example/f1''
    \<and> MaxFileSize (config tinyCapEnv) < int (length (content ?resp))"
    by (simp add: tinyCapEnv_def calmEnv_def)
  with downloadTelegramFile_caps_bytes [OF cap, of "''f1''" configuredWorld _ _ _ "''f1''"
      "''https://files.example/f1''" ?resp ?w2] r cap
  show ?thesis
    by (simp add: tinyCapEnv_def calmEnv_def)
qed

section \<open>Termination of the retry wrapper\<close>

lemma RetryLoop_returns:
  assumes c: "MaxElapsedTime b = Some c"
    and m: "0 < Multiplier b"
    and mono: "\<And>s. now s \<le> now (snd (operation s))"
  shows "0 < interval \<Longrightarrow> t0 \<le> now w \<Longrightarrow>
    \<exists>k. RetryLoop b operation interval t0 w = Some (operation (attemptState b operation interval w k))
      \<and> (\<forall>j<k. attemptFails operation (attemptState b operation interval w j)
               \<and> \<not> givesUp b operation (interval * Multiplier b ^ j) t0 (attemptState b operation interval w j))
      \<and> (attemptFails operation (attemptState b operation interval w k) \<longrightarrow>
             givesUp b operation (interval * Multiplier b ^ k) t0 (attemptState b operation interval w k))"
proof (induction "Suc c - (now w - t0)" arbitrary: interval w rule: less_induct)
  case less
  obtain r w1 where op: "operation w = (r, w1)" by (cases "operation w")
  have w1: "now w \<le> now w1" using mono [of w] op by simp
  show ?case
  proof (cases r)
    case (Inr v)
    have "RetryLoop b operation interval t0 w = Some (operation w)"
      by (subst RetryLoop.simps) (simp add: op Inr)
    moreover have "\<not> attemptFails operation w"
      by (simp add: attemptFails_def op Inr)
    ultimately show ?thesis
      by (intro exI [of _ 0]) simp
  next
    case (Inl err)
    show ?thesis
    proof (cases "NextBackOff b interval (now w1 - t0)")
      case None
      have "RetryLoop b operation interval t0 w = Some (operation w)"
        by (subst RetryLoop.simps) (simp add: op Inl None)
      moreover have "givesUp b operation interval t0 w"
        by (simp add: givesUp_def op None)
      ultimately show ?thesis
        by (intro exI [of _ 0]) simp
    next
      case (Some next')
      then have nx: "next' = interval" and le: "now w1 - t0 + interval \<le> c"
        by (auto simp: NextBackOff_def c split: if_splits)
      let ?w' = "Sleep interval w1"
      let ?i' = "interval * Multiplier b"
      have unfold: "RetryLoop b operation interval t0 w = RetryLoop b operation ?i' t0 ?w'"
        by (subst RetryLoop.simps) (simp add: op Inl Some nx)
      have i': "0 < ?i'" using less.prems m by simp
      have now': "now ?w' = now w1 + interval" by (simp add: Sleep_def)
      have st': "t0 \<le> now ?w'" using less.prems w1 now' by simp
      have dec: "Suc c - (now ?w' - t0) < Suc c - (now w - t0)"
        using less.prems w1 le now' by simp
      from less.hyps [OF dec i' st']
      obtain k where k1: "RetryLoop b operation ?i' t0 ?w' = Some (operation (attemptState b operation ?i' ?w' k))"
        and k2: "\<forall>j<k. attemptFails operation (attemptState b operation ?i' ?w' j)
               \<and> \<not> givesUp b operation (?i' * Multiplier b ^ j) t0 (attemptState b operation ?i' ?w' j)"
        and k3: "attemptFails operation (attemptState b operation ?i' ?w' k) \<longrightarrow>
             givesUp b operation (?i' * Multiplier b ^ k) t0 (attemptState b operation ?i' ?w' k)"
        by blast
      have st: "\<And>j. attemptState b operation interval w (Suc j) = attemptState b operation ?i' ?w' j"
        by (simp add: op)
      have pw: "\<And>j. interval * Multiplier b ^ Suc j = ?i' * Multiplier b ^ j"
        by simp
      have f0: "attemptFails operation w" by (simp add: attemptFails_def op Inl)
      have g0: "\<not> givesUp b operation interval t0 w" by (simp add: givesUp_def op Some)
      have all: "\<forall>j<Suc k. attemptFails operation (attemptState b operation interval w j)
               \<and> \<not> givesUp b operation (interval * Multiplier b ^ j) t0 (attemptState b operation interval w j)"
      proof (intro allI impI)
        fix j assume "j < Suc k"
        show "attemptFails operation (attemptState b operation interval w j)
               \<and> \<not> givesUp b operation (interval * Multiplier b ^ j) t0 (attemptState b operation interval w j)"
        proof (cases j)
          case 0
          then show ?thesis using f0 g0 by simp
        next
          case (Suc j')
          then have "j' < k" using \<open>j < Suc k\<close> by simp
          then show ?thesis using k2 unfolding Suc st pw by blast
        qed
      qed
      show ?thesis
        apply (rule exI [of _ "Suc k"])
        unfolding st pw
        using unfold k1 k3 all [unfolded st pw] all by (metis st pw)
    qed
  qed
qed

lemma httpGetOp_clock: "now s \<le> now (snd (httpGetOp e fileUrl s))"
  by (simp add: httpGetOp_def split: prod.splits)

lemma dialAndSendOp_clock: "now s \<le> now (snd (dialAndSendOp e m s))"
  by (simp add: dialAndSendOp_def split: prod.splits)

text \<open>
  C6: with a finite ceiling on the elapsed time (and intervals that are not zero), the
  retry wrapper returns. What it returns is the outcome of some attempt \<open>k\<close>: every
  attempt before \<open>k\<close> failed, with whatever error, and was followed by another attempt;
  attempt \<open>k\<close> either succeeded (the first success, whose value is returned) or failed
  when the policy gave up (its error, the last one, is returned).
\<close>

theorem Retry_returns:
  assumes "MaxElapsedTime b = Some ceiling" and "0 < InitialInterval b" and "0 < Multiplier b"
    and "\<And>s. now s \<le> now (snd (operation s))"
  shows "\<exists>k. Retry operation b w =
            Some (operation (attemptState b operation (InitialInterval b) w k))
      \<and> (\<forall>j<k. attemptFails operation (attemptState b operation (InitialInterval b) w j)
            \<and> \<not> givesUp b operation (InitialInterval b * Multiplier b ^ j) (now w)
                  (attemptState b operation (InitialInterval b) w j))
      \<and> (attemptFails operation (attemptState b operation (InitialInterval b) w k) \<longrightarrow>
            givesUp b operation (InitialInterval b * Multiplier b ^ k) (now w)
              (attemptState b operation (InitialInterval b) w k))"
  unfolding Retry_def
  by (rule RetryLoop_returns [OF assms(1) assms(3) assms(4) assms(2)]) simp

theorem Retry_returns_witness:
  "MaxElapsedTime (NewExponentialBackOff refusingEnv) = Some 10
   \<and> 0 < InitialInterval (NewExponentialBackOff refusingEnv)
   \<and> 0 < Multiplier (NewExponentialBackOff refusingEnv)
   \<and> (\<exists>y. Retry (dialAndSendOp refusingEnv pdfEmail) (NewExponentialBackOff refusingEnv)
              configuredWorld = Some y)"
proof -
  have h: "MaxElapsedTime (NewExponentialBackOff refusingEnv) = Some 10"
    "0 < InitialInterval (NewExponentialBackOff refusingEnv)"
    "0 < Multiplier (NewExponentialBackOff refusingEnv)"
    by (simp_all add: refusingEnv_def)
  from Retry_returns [where operation = "dialAndSendOp refusingEnv pdfEmail"
      and w = configuredWorld, OF h dialAndSendOp_clock]
  have "\<exists>y. Retry (dialAndSendOp refusingEnv pdfEmail) (NewExponentialBackOff refusingEnv)
              configuredWorld = Some y"
    by blast
  with h show ?thesis by simp
qed

lemma refusing_retry:
  "Retry (dialAndSendOp refusingEnv pdfEmail) (NewExponentialBackOff refusingEnv) configuredWorld =
     Some (Inl (ErrText ''connection refused''),
           configuredWorld\<lparr>now := 9, trace :=
             [DialAndSend pdfEmail (Some (ErrText ''connection refused'')),
              DialAndSend pdfEmail (Some (ErrText ''connection refused'')),
              DialAndSend pdfEmail (Some (ErrText ''connection refused''))]\<rparr>)"
  by (simp add: Retry_def RetryLoop.simps dialAndSendOp_def refusingEnv_def NextBackOff_def
        Sleep_def configuredWorld_def)

lemma RetryLoop_without_ceiling:
  assumes b: "MaxElapsedTime b = None" and f: "\<forall>s. isl (fst (operation s))"
  shows "RetryLoop b operation interval t0 w = None"
proof -
  have False if run: "RetryLoop b operation interval t0 w = Some y" for y
    using run b f
  proof (induction rule: RetryLoop.raw_induct [rotated 1, consumes 1])
    case (1 RL b operation interval t0 w y)
    obtain r w1 where op: "operation w = (r, w1)" by (cases "operation w")
    with "1.prems" obtain err where "r = Inl err"
      by (cases r) (auto dest: spec [of _ w])
    with "1.hyps" "1.prems" op
    have "RL b operation (interval * Multiplier b) t0 (Sleep interval w1) = Some (fst y, snd y)"
      by (simp add: NextBackOff_def)
    from "1.IH" [OF this "1.prems"] show ?case .
  qed
  then show ?thesis by (cases "RetryLoop b operation interval t0 w") auto
qed


section \<open>The slots of the dispatch loop\<close>

lemma length_remove_nth:
  "i < length xs \<Longrightarrow> length (take i xs @ drop (Suc i) xs) = length xs - 1"
  by simp

lemma dispatcher_invariant:
  assumes n: "0 \<le> MaxWorkers (config e)" and r: "reachable e w s"
  shows "workerPool s = length (tasks s) + goPending (pc s)
    \<and> int (workerPool s) \<le> MaxWorkers (config e)
    \<and> acquired s = released s + workerPool s"
  using r
proof (induction rule: reachable.induct)
  case init
  with n show ?case by (simp add: startLoop_def goPending_def)
next
  case (next_step s s')
  from next_step.hyps(2) next_step.IH show ?case
  proof (cases rule: step.cases)
    case (receive update)
    with next_step.IH show ?thesis by (simp add: goPending_def)
  next
    case ctxDone
    with next_step.IH show ?thesis by (simp add: goPending_def)
  next
    case (acquire update)
    with next_step.IH show ?thesis by (simp add: goPending_def)
  next
    case (spawn update)
    with next_step.IH show ?thesis by (simp add: goPending_def)
  next
    case (run i update r w')
    with next_step.IH show ?thesis by simp
  next
    case (release i r)
    with next_step.IH show ?thesis by (auto simp: releaseSlot_def)
  qed
qed

text \<open>
  C2: with \<open>MaxWorkers = N\<close>, \<open>N \<ge> 1\<close>, in every state the dispatch loop can reach: at
  most \<open>N\<close> goroutines are in flight; the channel holds one token for each of them
  (and one for an update between the send and the \<open>go\<close> statement) and never more than
  \<open>N\<close>; each token sent was received back once or is still held; a goroutine that has
  left \<open>handleUpdate\<close> can run its deferred receive; and a goroutine whose
  \<open>handleUpdate\<close> returns or panics ends and then gives its slot back: the two steps are
  steps of the loop, they take one token from the channel, count one receive, remove
  the goroutine, and end the process exactly when it panicked.
\<close>

theorem worker_slots_bounded:
  assumes "1 \<le> MaxWorkers (config e)" and "reachable e w s"
  shows "int (length (tasks s)) \<le> MaxWorkers (config e)
    \<and> workerPool s = length (tasks s) + goPending (pc s)
    \<and> int (workerPool s) \<le> MaxWorkers (config e)
    \<and> acquired s = released s + workerPool s
    \<and> (\<forall>i r. i < length (tasks s) \<and> tasks s ! i = Ended r \<and> \<not> crashed s
          \<longrightarrow> step e s (releaseSlot i r s)
            \<and> workerPool (releaseSlot i r s) = workerPool s - 1
            \<and> released (releaseSlot i r s) = released s + 1
            \<and> length (tasks (releaseSlot i r s)) = length (tasks s) - 1)
    \<and> (\<forall>i update r w'. i < length (tasks s) \<and> tasks s ! i = Running update \<and> \<not> crashed s
            \<and> handleUpdate e update (wld s) = Some (r, w')
          \<longrightarrow> step e s (endTask i r w' s)
            \<and> step e (endTask i r w' s) (releaseSlot i r (endTask i r w' s))
            \<and> reachable e w (releaseSlot i r (endTask i r w' s))
            \<and> workerPool (releaseSlot i r (endTask i r w' s)) = workerPool s - 1
            \<and> 0 < workerPool s
            \<and> released (releaseSlot i r (endTask i r w' s)) = released s + 1
            \<and> acquired (releaseSlot i r (endTask i r w' s)) = acquired s
            \<and> length (tasks (releaseSlot i r (endTask i r w' s))) = length (tasks s) - 1
            \<and> crashed (releaseSlot i r (endTask i r w' s)) = (r = Panic))"
proof -
  from assms have inv: "workerPool s = length (tasks s) + goPending (pc s)"
    "int (workerPool s) \<le> MaxWorkers (config e)" "acquired s = released s + workerPool s"
    using dispatcher_invariant [of e w s] by simp_all
  have rel: "step e s (releaseSlot i r s)"
    if "i < length (tasks s)" "tasks s ! i = Ended r" "\<not> crashed s" for i r
    using that inv(1) by (intro step.release) auto
  have run: "step e s (endTask i r w' s)
      \<and> step e (endTask i r w' s) (releaseSlot i r (endTask i r w' s))
      \<and> reachable e w (releaseSlot i r (endTask i r w' s))"
    if h: "i < length (tasks s)" "tasks s ! i = Running update" "\<not> crashed s"
      "handleUpdate e update (wld s) = Some (r, w')" for i update r w'
  proof -
    have s1: "step e s (endTask i r w' s)"
      unfolding endTask_def using h by (intro step.run) simp_all
    have s2: "step e (endTask i r w' s) (releaseSlot i r (endTask i r w' s))"
      using h inv(1) by (intro step.release) (auto simp: endTask_def)
    from assms(2) s1 have "reachable e w (endTask i r w' s)" by (rule reachable.next_step)
    then have "reachable e w (releaseSlot i r (endTask i r w' s))"
      using s2 by (rule reachable.next_step)
    with s1 s2 show ?thesis by simp
  qed
  have pos: "0 < workerPool s" if "i < length (tasks s)" for i
    using that inv(1) by auto
  show ?thesis
    using inv rel run pos
    by (auto simp: releaseSlot_def endTask_def)
qed

lemma reachable_spawned:
  assumes "0 < MaxWorkers (config e)"
  shows "reachable e w \<lparr>workerPool = 1, pc = Select, tasks = [Running update], crashed = False,
     acquired = 1, released = 0, wld = w\<rparr>"
proof -
  let ?s0 = "startLoop w"
  let ?s1 = "?s0\<lparr>pc := SendToken update\<rparr>"
  let ?s2 = "?s1\<lparr>workerPool := workerPool ?s1 + 1, acquired := acquired ?s1 + 1, pc := Go update\<rparr>"
  let ?s3 = "?s2\<lparr>tasks := tasks ?s2 @ [Running update], pc := Select\<rparr>"
  have "reachable e w ?s0" by (rule reachable.init)
  moreover have "step e ?s0 ?s1" by (rule step.receive) (simp_all add: startLoop_def)
  ultimately have "reachable e w ?s1" by (rule reachable.next_step)
  moreover have "step e ?s1 ?s2" using assms by (intro step.acquire) (simp_all add: startLoop_def)
  ultimately have "reachable e w ?s2" by (rule reachable.next_step)
  moreover have "step e ?s2 ?s3" by (rule step.spawn) (simp_all add: startLoop_def)
  ultimately have "reachable e w ?s3" by (rule reachable.next_step)
  then show ?thesis by (simp add: startLoop_def)
qed

text \<open>
  Two runs of \<open>handleUpdate\<close>: an update without message panics out of the deferred
  function, and the PDF of the configured user is delivered.
\<close>

lemma nil_Message_escapes: "handleUpdate e nilUpdate w = Some (Panic, w)"
  by (simp add: handleUpdate_def route_def recovered_def nilUpdate_def bnd_fromID)

lemma calm_update_run:
  "handleUpdate calmEnv \<lparr>Message = Some (documentMessage pdfDocument)\<rparr> configuredWorld =
     Some (Val (), afterDelivery)"
  by (simp add: handleUpdate_def route_def calm_run) (simp add: documentMessage_def)

theorem worker_slots_bounded_witness:
  "1 \<le> MaxWorkers (config calmEnv)
   \<and> reachable calmEnv configuredWorld oneRunning
   \<and> handleUpdate calmEnv \<lparr>Message = Some (documentMessage pdfDocument)\<rparr> configuredWorld =
       Some (Val (), afterDelivery)
   \<and> step calmEnv oneRunning (endTask 0 (Val ()) afterDelivery oneRunning)
   \<and> step calmEnv (endTask 0 (Val ()) afterDelivery oneRunning) oneReleased
   \<and> reachable calmEnv configuredWorld oneReleased
   \<and> workerPool oneRunning = 1 \<and> workerPool oneReleased = 0
   \<and> acquired oneReleased = 1 \<and> released oneReleased = 1
   \<and> tasks oneReleased = [] \<and> \<not> crashed oneReleased
   \<and> reachable calmEnv configuredWorld nilRunning
   \<and> handleUpdate calmEnv nilUpdate configuredWorld = Some (Panic, configuredWorld)
   \<and> step calmEnv nilRunning (endTask 0 Panic configuredWorld nilRunning)
   \<and> step calmEnv (endTask 0 Panic configuredWorld nilRunning) processCrashed
   \<and> reachable calmEnv configuredWorld processCrashed
   \<and> workerPool nilRunning = 1 \<and> workerPool processCrashed = 0
   \<and> acquired processCrashed = 1 \<and> released processCrashed = 1
   \<and> tasks processCrashed = [] \<and> crashed processCrashed"
proof -
  have n: "1 \<le> MaxWorkers (config calmEnv)" by (simp add: calmEnv_def mainConfig_def)
  then have r1: "reachable calmEnv configuredWorld oneRunning"
    unfolding oneRunning_def by (intro reachable_spawned) simp
  from n have r2: "reachable calmEnv configuredWorld nilRunning"
    unfolding nilRunning_def by (intro reachable_spawned) simp
  have e1: "releaseSlot 0 (Val ()) (endTask 0 (Val ()) afterDelivery oneRunning) = oneReleased"
    by (simp add: releaseSlot_def endTask_def oneRunning_def oneReleased_def)
  have e2: "releaseSlot 0 Panic (endTask 0 Panic configuredWorld nilRunning) = processCrashed"
    by (simp add: releaseSlot_def endTask_def nilRunning_def processCrashed_def)
  have h1: "0 < length (tasks oneRunning)
      \<and> tasks oneRunning ! 0 = Running \<lparr>Message = Some (documentMessage pdfDocument)\<rparr>
      \<and> \<not> crashed oneRunning
      \<and> handleUpdate calmEnv \<lparr>Message = Some (documentMessage pdfDocument)\<rparr> (wld oneRunning) =
          Some (Val (), afterDelivery)"
    by (simp add: oneRunning_def calm_update_run)
  have h2: "0 < length (tasks nilRunning) \<and> tasks nilRunning ! 0 = Running nilUpdate
      \<and> \<not> crashed nilRunning
      \<and> handleUpdate calmEnv nilUpdate (wld nilRunning) = Some (Panic, configuredWorld)"
    by (simp add: nilRunning_def nil_Message_escapes)
  from worker_slots_bounded [OF n r1] h1
  have a: "step calmEnv oneRunning (endTask 0 (Val ()) afterDelivery oneRunning)
      \<and> step calmEnv (endTask 0 (Val ()) afterDelivery oneRunning) oneReleased
      \<and> reachable calmEnv configuredWorld oneReleased"
    unfolding e1 [symmetric] by blast
  from worker_slots_bounded [OF n r2] h2
  have b: "step calmEnv nilRunning (endTask 0 Panic configuredWorld nilRunning)
      \<and> step calmEnv (endTask 0 Panic configuredWorld nilRunning) processCrashed
      \<and> reachable calmEnv configuredWorld processCrashed"
    unfolding e2 [symmetric] by blast
  from n r1 r2 a b calm_update_run nil_Message_escapes show ?thesis
    by (simp add: oneRunning_def oneReleased_def nilRunning_def processCrashed_def)
qed

section \<open>A panic that leaves the per-event task\<close>

text \<open>
  A document without sender (a channel post) panics in the same way as an update without
  message: the deferred function reads \<open>update.Message.From.ID\<close> of a nil sender.
\<close>

lemma nil_From_escapes:
  assumes "Message update = Some m" and "From m = None" and "Document m = Some doc"
  shows "handleUpdate e update w = Some (Panic, w)"
  using assms
  by (simp add: handleUpdate_def route_def recovered_def handleDocument_def bnd_fromID)

lemma reachable_processCrashed:
  "reachable calmEnv configuredWorld processCrashed"
proof -
  have n: "0 < MaxWorkers (config calmEnv)" by (simp add: calmEnv_def mainConfig_def)
  have r0: "reachable calmEnv configuredWorld nilRunning"
    unfolding nilRunning_def by (rule reachable_spawned [OF n])
  let ?s1 = "nilRunning\<lparr>tasks := (tasks nilRunning)[0 := Ended Panic], wld := configuredWorld\<rparr>"
  have "step calmEnv nilRunning ?s1"
    by (rule step.run [where update = nilUpdate])
       (simp_all add: nilRunning_def nil_Message_escapes)
  with r0 have r1: "reachable calmEnv configuredWorld ?s1" by (rule reachable.next_step)
  have "step calmEnv ?s1 (releaseSlot 0 Panic ?s1)"
    by (rule step.release) (simp_all add: nilRunning_def)
  with r1 have "reachable calmEnv configuredWorld (releaseSlot 0 Panic ?s1)"
    by (rule reachable.next_step)
  then show ?thesis
    by (simp add: releaseSlot_def nilRunning_def processCrashed_def)
qed

text \<open>
  C4, at an update without message: \<open>update.Message.Document\<close> panics, the deferred
  function recovers the panic and panics itself at \<open>update.Message.From.ID\<close>, before it
  logs; the panic leaves \<open>handleUpdate\<close> with nothing logged, and in the dispatch loop it
  ends the process after the slot was released.
\<close>

theorem nil_Message_panic_ends_process:
  "handleUpdate calmEnv nilUpdate configuredWorld = Some (Panic, configuredWorld)
   \<and> reachable calmEnv configuredWorld processCrashed
   \<and> crashed processCrashed"
  by (simp add: nil_Message_escapes reachable_processCrashed) (simp add: processCrashed_def)


section \<open>The destination address and the notices\<close>

lemma setKindleEmailCommand_run:
  assumes m: "Message update = Some m"
  shows "setKindleEmailCommand e update w =
    (if CommandArguments m = [] then
       (case Chat m of
          None \<Rightarrow> Some (Panic, w)
        | Some c \<Rightarrow> Some (Val (), w\<lparr>trace := trace w @ sendEvents e (ChatID c)
                       ''Please provide your Kindle email address''\<rparr>))
     else
       (case validateEmail (ParseAddress e) (CommandArguments m) of
          Inl err \<Rightarrow>
            (case Chat m of
               None \<Rightarrow> Some (Panic, w)
             | Some c \<Rightarrow> Some (Val (), w\<lparr>trace := trace w @ sendEvents e (ChatID c) (Error err)\<rparr>))
        | Inr kindleEmail \<Rightarrow>
            (case From m of
               None \<Rightarrow> Some (Panic, w)
             | Some u \<Rightarrow>
                 (case upsertFails e (UserID u) kindleEmail of
                    Some err \<Rightarrow>
                      (case Chat m of
                         None \<Rightarrow> Some (Panic, w)
                       | Some c \<Rightarrow> Some (Val (), w\<lparr>trace := trace w
                           @ sendEvents e (ChatID c)
                               ''Error setting Kindle email address, please try again later''
                           @ [SlogError ''error setting kindle email''
                                [ErrAttr ''error'' err, IntAttr ''user_id'' (UserID u),
                                 StrAttr ''kindle_email'' kindleEmail]]\<rparr>))
                  | None \<Rightarrow>
                      (case Chat m of
                         None \<Rightarrow> Some (Panic,
                           w\<lparr>db := (db w)\<lparr>users := (users (db w))(UserID u \<mapsto> kindleEmail)\<rparr>\<rparr>)
                       | Some c \<Rightarrow> Some (Val (),
                           w\<lparr>db := (db w)\<lparr>users := (users (db w))(UserID u \<mapsto> kindleEmail)\<rparr>,
                             trace := trace w @ sendEvents e (ChatID c)
                               (''Kindle email address set to '' @ kindleEmail @ '' successfully'')\<rparr>))))))"
  using m
  by (simp add: setKindleEmailCommand_def bnd_fromID bnd_chatID sendMessage_run SetKindleEmail_def
        emit_def split: sum.splits option.splits)

lemma validateEmail_Inr:
  "validateEmail parseAddress email = Inr kindleEmail \<longleftrightarrow>
     kindleEmail = email \<and> (\<exists>a. parseAddress email = Inr a \<and> HasSuffix (Addr a) ''@kindle.com'')"
  by (auto simp: validateEmail_def split: sum.splits if_splits)

text \<open>
  C5 (as amended): \<open>setKindleEmailCommand\<close> writes to the \<open>users\<close> table only after
  \<open>validateEmail\<close> accepted the argument: the string it stores for the sender is the
  argument of the command as it was typed, and \<open>mail.ParseAddress\<close> parses that string
  to an address that ends with "@kindle.com". In every other case the table is
  unchanged. \<open>sent_books\<close> is never touched.
\<close>

theorem stored_address_was_validated:
  assumes run: "setKindleEmailCommand e update w = Some (r, w')"
  shows "sent_books (db w') = sent_books (db w)
    \<and> (users (db w') = users (db w)
       \<or> (\<exists>m u a. Message update = Some m \<and> From m = Some u
            \<and> ParseAddress e (CommandArguments m) = Inr a
            \<and> HasSuffix (Addr a) ''@kindle.com''
            \<and> users (db w') = (users (db w))(UserID u \<mapsto> CommandArguments m)))"
proof (cases "Message update")
  case None
  with run show ?thesis by (simp add: setKindleEmailCommand_def)
next
  case (Some m)
  from run show ?thesis
    unfolding setKindleEmailCommand_run [OF Some]
    by (auto simp: Some validateEmail_Inr split: if_splits sum.splits option.splits)
qed

lemma parse_angle: "mailParseAddress ''<a@kindle.com>'' = Inr \<lparr>Name = [], Addr = ''a@kindle.com''\<rparr>"
  by code_simp

lemma parse_plain:
  "mailParseAddress ''reader@kindle.com'' = Inr \<lparr>Name = [], Addr = ''reader@kindle.com''\<rparr>"
  by code_simp

lemma parse_gmail:
  "mailParseAddress ''reader@gmail.com'' = Inr \<lparr>Name = [], Addr = ''reader@gmail.com''\<rparr>"
  by code_simp

lemma parse_name_only: "mailParseAddress ''John Doe'' = Inl (ErrText ''mail: no angle-addr'')"
  by code_simp

lemma parse_unclosed: "mailParseAddress ''<a@kindle.com'' = Inl (ErrText ''mail: unclosed angle-addr'')"
  by code_simp

lemmas command_simps = setKindleEmail_def commandMessage_def validateEmail_def HasSuffix_def
  sendEvents_def calmEnv_def configuredWorld_def

lemma angle_run:
  "setKindleEmailCommand calmEnv (setKindleEmail ''<a@kindle.com>'') configuredWorld =
     Some (Val (), \<lparr>db = \<lparr>users = [7 \<mapsto> ''<a@kindle.com>''], sent_books = []\<rparr>, now = 0,
       trace = [Send 42 ''Kindle email address set to <a@kindle.com> successfully'']\<rparr>)"
  by (subst setKindleEmailCommand_run [where m = "commandMessage ''set_kindle_email'' ''<a@kindle.com>''"])
     (simp_all add: command_simps parse_angle)

lemma plain_run:
  "setKindleEmailCommand calmEnv (setKindleEmail ''reader@kindle.com'') configuredWorld =
     Some (Val (), \<lparr>db = \<lparr>users = [7 \<mapsto> ''reader@kindle.com''], sent_books = []\<rparr>, now = 0,
       trace = [Send 42 ''Kindle email address set to reader@kindle.com successfully'']\<rparr>)"
  by (subst setKindleEmailCommand_run [where m = "commandMessage ''set_kindle_email'' ''reader@kindle.com''"])
     (simp_all add: command_simps parse_plain)

text \<open>
  C5 as stated fails: the argument \<open><a@kindle.com>\<close> is accepted, since the address the
  parser extracts from it is \<open>a@kindle.com\<close>, and the string stored is the argument,
  which ends with \<open>>\<close>.
\<close>

theorem stored_address_suffix_counterexample:
  "setKindleEmailCommand calmEnv (setKindleEmail ''<a@kindle.com>'') configuredWorld =
     Some (Val (), \<lparr>db = \<lparr>users = [7 \<mapsto> ''<a@kindle.com>''], sent_books = []\<rparr>, now = 0,
       trace = [Send 42 ''Kindle email address set to <a@kindle.com> successfully'']\<rparr>)
   \<and> \<not> HasSuffix ''<a@kindle.com>'' ''@kindle.com''"
  by (simp add: angle_run) (simp add: HasSuffix_def)

theorem stored_address_was_validated_witness:
  "setKindleEmailCommand calmEnv (setKindleEmail ''reader@kindle.com'') configuredWorld =
     Some (Val (), \<lparr>db = \<lparr>users = [7 \<mapsto> ''reader@kindle.com''], sent_books = []\<rparr>, now = 0,
       trace = [Send 42 ''Kindle email address set to reader@kindle.com successfully'']\<rparr>)
   \<and> (\<exists>a. ParseAddress calmEnv ''reader@kindle.com'' = Inr a \<and> HasSuffix (Addr a) ''@kindle.com'')"
proof -
  let ?w' = "\<lparr>db = \<lparr>users = [7 \<mapsto> ''reader@kindle.com''], sent_books = []\<rparr>, now = 0,
       trace = [Send 42 ''Kindle email address set to reader@kindle.com successfully'']\<rparr>"
  have "users (db ?w') 7 \<noteq> users (db configuredWorld) 7"
    by (simp add: configuredWorld_def)
  then have ne: "users (db ?w') \<noteq> users (db configuredWorld)" by metis
  from stored_address_was_validated [OF plain_run] ne
  obtain m a where "Message (setKindleEmail ''reader@kindle.com'') = Some m"
    and "ParseAddress calmEnv (CommandArguments m) = Inr a" and "HasSuffix (Addr a) ''@kindle.com''"
    by blast
  then have "\<exists>a. ParseAddress calmEnv ''reader@kindle.com'' = Inr a \<and> HasSuffix (Addr a) ''@kindle.com''"
    by (auto simp: setKindleEmail_def commandMessage_def)
  with plain_run show ?thesis by simp
qed


lemma handleDocument_early_notices:
  assumes run: "handleDocument e update w = Some (r, w')"
    and early: "\<not> (\<exists>m u c doc k. Message update = Some m \<and> From m = Some u \<and> Chat m = Some c
        \<and> Document m = Some doc \<and> GetKindleEmail e (UserID u) w = Inr k
        \<and> lookupBool supportedMimeTypes (MimeType doc)
        \<and> \<not> FileSize doc > MaxFileSize (config e))"
  shows "\<exists>evs c. trace w' = trace w @ evs \<and> notices evs \<in> documentOutcomes c"
proof -
  note unf = handleDocument_def bnd_fromID bnd_chatID bnd_document sendMessage_run
    documentOutcomes_def
  have nil: "\<exists>evs c. trace w = trace w @ evs \<and> notices evs \<in> documentOutcomes c"
    by (intro exI [of _ "[]"]) (simp add: documentOutcomes_def)
  show ?thesis
  proof (cases "Message update")
    case None
    with run nil show ?thesis by (simp add: unf)
  next
    case m: (Some m)
    show ?thesis
    proof (cases "From m")
      case None
      with run m nil show ?thesis by (simp add: unf)
    next
      case u: (Some u)
      show ?thesis
      proof (cases "GetKindleEmail e (UserID u) w")
        case (Inl err)
        with run m u nil show ?thesis
          by (cases "Chat m") (auto simp: unf)
      next
        case k: (Inr k)
        show ?thesis
        proof (cases "Document m")
          case None
          with run m u k nil show ?thesis by (simp add: unf)
        next
          case d: (Some doc)
          show ?thesis
          proof (cases "Chat m")
            case None
            with run m u k d nil show ?thesis by (auto simp: unf split: if_splits)
          next
            case c: (Some c)
            from early m u k d c
            have "\<not> lookupBool supportedMimeTypes (MimeType doc) \<or> FileSize doc > MaxFileSize (config e)"
              by blast
            with run m u k d c show ?thesis by (auto simp: unf split: if_splits)
          qed
        qed
      qed
    qed
  qed
qed

lemma handleDocument_notices:
  assumes run: "handleDocument e update w = Some (r, w')" and tr: "trace w' = trace w @ evs"
  shows "\<exists>c. notices evs \<in> documentOutcomes c"
proof (cases "\<exists>m u c doc k. Message update = Some m \<and> From m = Some u \<and> Chat m = Some c
        \<and> Document m = Some doc \<and> GetKindleEmail e (UserID u) w = Inr k
        \<and> lookupBool supportedMimeTypes (MimeType doc)
        \<and> \<not> FileSize doc > MaxFileSize (config e)")
  case False
  from handleDocument_early_notices [OF run False] tr show ?thesis by auto
next
  case True
  then obtain m u c doc k where p: "Message update = Some m" "From m = Some u" "Chat m = Some c"
    "Document m = Some doc" "GetKindleEmail e (UserID u) w = Inr k"
    "lookupBool supportedMimeTypes (MimeType doc)" "\<not> FileSize doc > MaxFileSize (config e)"
    by blast
  from p run have "notices evs \<in> documentOutcomes (ChatID c)"
  proof (cases rule: handleDocument_valid_run)
    case (fetchFailed fevs err)
    with tr show ?thesis using fetch_not_transmit [of fevs]
      by (auto simp: documentOutcomes_def)
  next
    case (transmitFailed fevs tevs err)
    with tr show ?thesis using fetch_not_transmit [of fevs] transmit_quiet [of tevs]
      by (auto simp: documentOutcomes_def)
  next
    case (insertFailed fevs tevs err)
    with tr show ?thesis using fetch_not_transmit [of fevs] transmit_quiet [of tevs]
      by (auto simp: documentOutcomes_def)
  next
    case (delivered fevs tevs)
    with tr show ?thesis using fetch_not_transmit [of fevs] transmit_quiet [of tevs]
      by (auto simp: documentOutcomes_def)
  qed
  then show ?thesis ..
qed

text \<open>One notice for each kind of failure of a document delivery.\<close>

lemma not_configured_notice:
  assumes "Message update = Some m" and "From m = Some u" and "Chat m = Some c"
    and "GetKindleEmail e (UserID u) w = Inl err"
  shows "\<exists>wf. handleDocument e update w = Some (Val (), wf) \<and> db wf = db w
    \<and> notices (trace wf) = notices (trace w)
        @ [(ChatID c, ''Please set your Kindle email address first using /set_kindle_email'')]"
  using assms by (simp add: pipeline_simps)

lemma unsupported_type_notice:
  assumes "Message update = Some m" and "From m = Some u" and "Chat m = Some c"
    and "Document m = Some doc" and "GetKindleEmail e (UserID u) w = Inr k"
    and "\<not> lookupBool supportedMimeTypes (MimeType doc)"
  shows "\<exists>wf. handleDocument e update w = Some (Val (), wf) \<and> db wf = db w
    \<and> notices (trace wf) = notices (trace w)
        @ [(ChatID c, ''Unsupported file type. Try sending a PDF, EPUB, or MOBI file'')]"
  using assms by (simp add: pipeline_simps)

lemma too_large_notice:
  assumes "Message update = Some m" and "From m = Some u" and "Chat m = Some c"
    and "Document m = Some doc" and "GetKindleEmail e (UserID u) w = Inr k"
    and "lookupBool supportedMimeTypes (MimeType doc)"
    and "FileSize doc > MaxFileSize (config e)"
  shows "\<exists>wf. handleDocument e update w = Some (Val (), wf) \<and> db wf = db w
    \<and> notices (trace wf) = notices (trace w)
        @ [(ChatID c, ''File is too large. Maximum file size is 20MB'')]"
  using assms by (simp add: pipeline_simps)

lemma fetch_failed_notice:
  assumes v: "passesValidation e update w m u c doc k"
    and f: "tgGetFile e (FileID doc) = Inl err
      \<or> tgGetFile e (FileID doc) = Inr fl \<and> tgGetFileDirectURL e fl = Inl err
      \<or> tgGetFile e (FileID doc) = Inr fl \<and> tgGetFileDirectURL e fl = Inr fileUrl
          \<and> Retry (httpGetOp e fileUrl) (NewExponentialBackOff e) (fetchStart e c doc fl w)
               = Some (Inl err, w1)
      \<or> tgGetFile e (FileID doc) = Inr fl \<and> tgGetFileDirectURL e fl = Inr fileUrl
          \<and> Retry (httpGetOp e fileUrl) (NewExponentialBackOff e) (fetchStart e c doc fl w)
               = Some (Inr resp, w1)
          \<and> readErr (LimitReader resp (MaxFileSize (config e))) = Some err"
  shows "\<exists>wf. handleDocument e update w = Some (Val (), wf) \<and> db wf = db w
    \<and> notices (trace wf) = notices (trace w)
        @ [(ChatID c, ''Downloading file...''),
           (ChatID c, ''Error downloading file, please try again later'')]"
proof -
  note v' = v [unfolded passesValidation_def]
  from f consider
      (a) "tgGetFile e (FileID doc) = Inl err"
    | (b) "tgGetFile e (FileID doc) = Inr fl" "tgGetFileDirectURL e fl = Inl err"
    | (c) "tgGetFile e (FileID doc) = Inr fl" "tgGetFileDirectURL e fl = Inr fileUrl"
          "Retry (httpGetOp e fileUrl) (NewExponentialBackOff e) (fetchStart e c doc fl w)
               = Some (Inl err, w1)"
    | (d) "tgGetFile e (FileID doc) = Inr fl" "tgGetFileDirectURL e fl = Inr fileUrl"
          "Retry (httpGetOp e fileUrl) (NewExponentialBackOff e) (fetchStart e c doc fl w)
               = Some (Inr resp, w1)"
          "readErr (LimitReader resp (MaxFileSize (config e))) = Some err"
    by blast
  then show ?thesis
  proof cases
    case a
    with v' show ?thesis by (simp add: pipeline_simps)
  next
    case b
    with v' show ?thesis by (simp add: pipeline_simps)
  next
    case c
    from Retry_httpGet_quiet [OF c(3)]
    have "db w1 = db w" "notices (trace w1) = notices (trace w) @ [(ChatID c, ''Downloading file...'')]"
      by (simp_all add: fetchStart_def)
    with v' c show ?thesis by (simp add: pipeline_simps)
  next
    case d
    from Retry_httpGet_quiet [OF d(3)]
    have "db w1 = db w" "notices (trace w1) = notices (trace w) @ [(ChatID c, ''Downloading file...'')]"
      by (simp_all add: fetchStart_def)
    with v' d show ?thesis by (simp add: pipeline_simps)
  qed
qed

lemma transmit_failed_notice:
  assumes v: "passesValidation e update w m u c doc k"
    and "tgGetFile e (FileID doc) = Inr fl" and "tgGetFileDirectURL e fl = Inr fileUrl"
    and get: "Retry (httpGetOp e fileUrl) (NewExponentialBackOff e) (fetchStart e c doc fl w)
           = Some (Inr resp, w1)"
    and "readErr (LimitReader resp (MaxFileSize (config e))) = None"
    and smtp: "Retry (dialAndSendOp e
             (kindleMail e k doc (content (LimitReader resp (MaxFileSize (config e))))))
           (NewExponentialBackOff e) (transmitStart e c w1) = Some (Inl err, w2)"
  shows "\<exists>wf. handleDocument e update w = Some (Val (), wf) \<and> db wf = db w
    \<and> notices (trace wf) = notices (trace w)
        @ [(ChatID c, ''Downloading file...''),
           (ChatID c, ''Download successful. Sending file to Kindle...''),
           (ChatID c, ''Error sending email, please try again later'')]"
proof -
  note v' = v [unfolded passesValidation_def]
  from Retry_httpGet_quiet [OF get]
  have q1: "db w1 = db w" "notices (trace w1) = notices (trace w) @ [(ChatID c, ''Downloading file...'')]"
    by (simp_all add: fetchStart_def)
  from Retry_dialAndSend_quiet [OF smtp] q1
  have q2: "db w2 = db w" "notices (trace w2) = notices (trace w) @
      [(ChatID c, ''Downloading file...''),
       (ChatID c, ''Download successful. Sending file to Kindle...'')]"
    by (simp_all add: transmitStart_def)
  from v' assms(2-) q2 show ?thesis by (simp add: pipeline_simps)
qed

lemma setKindleEmail_notices:
  "setKindleEmailCommand e update w = Some (r, w') \<and> trace w' = trace w @ evs
        \<and> Message update = Some m \<and> Chat m = Some c
      \<longrightarrow> (CommandArguments m = []
            \<longrightarrow> notices evs = [(ChatID c, ''Please provide your Kindle email address'')])
        \<and> (\<forall>a. CommandArguments m \<noteq> [] \<and> ParseAddress e (CommandArguments m) = Inr a
                \<and> \<not> HasSuffix (Addr a) ''@kindle.com''
            \<longrightarrow> notices evs = [(ChatID c, ''email address is not a kindle email address'')])
        \<and> (\<forall>a u err. CommandArguments m \<noteq> [] \<and> ParseAddress e (CommandArguments m) = Inr a
                \<and> HasSuffix (Addr a) ''@kindle.com'' \<and> From m = Some u
                \<and> upsertFails e (UserID u) (CommandArguments m) = Some err
            \<longrightarrow> notices evs =
                  [(ChatID c, ''Error setting Kindle email address, please try again later'')])
        \<and> (\<forall>err. CommandArguments m \<noteq> [] \<and> ParseAddress e (CommandArguments m) = Inl err
            \<longrightarrow> notices evs = [(ChatID c, ''invalid email address: '' @ Error err)])"
proof (intro impI)
  assume a: "setKindleEmailCommand e update w = Some (r, w') \<and> trace w' = trace w @ evs
        \<and> Message update = Some m \<and> Chat m = Some c"
  then have m: "Message update = Some m" and c: "Chat m = Some c"
    and tr: "trace w' = trace w @ evs"
    and run: "setKindleEmailCommand e update w = Some (r, w')"
    by simp_all
  note run' = run [unfolded setKindleEmailCommand_run [OF m]]
  have 1: "CommandArguments m = []
      \<longrightarrow> notices evs = [(ChatID c, ''Please provide your Kindle email address'')]"
    using run' c tr by auto
  have 2: "\<forall>a. CommandArguments m \<noteq> [] \<and> ParseAddress e (CommandArguments m) = Inr a
                \<and> \<not> HasSuffix (Addr a) ''@kindle.com''
            \<longrightarrow> notices evs = [(ChatID c, ''email address is not a kindle email address'')]"
    using run' c tr by (auto simp: validateEmail_def)
  have 3: "\<forall>a u err. CommandArguments m \<noteq> [] \<and> ParseAddress e (CommandArguments m) = Inr a
                \<and> HasSuffix (Addr a) ''@kindle.com'' \<and> From m = Some u
                \<and> upsertFails e (UserID u) (CommandArguments m) = Some err
            \<longrightarrow> notices evs =
                  [(ChatID c, ''Error setting Kindle email address, please try again later'')]"
    using run' c tr by (auto simp: validateEmail_def)
  have 4: "\<forall>err. CommandArguments m \<noteq> [] \<and> ParseAddress e (CommandArguments m) = Inl err
            \<longrightarrow> notices evs = [(ChatID c, ''invalid email address: '' @ Error err)]"
    using run' c tr by (auto simp: validateEmail_def)
  from 1 2 3 4 show "(CommandArguments m = []
            \<longrightarrow> notices evs = [(ChatID c, ''Please provide your Kindle email address'')])
        \<and> (\<forall>a. CommandArguments m \<noteq> [] \<and> ParseAddress e (CommandArguments m) = Inr a
                \<and> \<not> HasSuffix (Addr a) ''@kindle.com''
            \<longrightarrow> notices evs = [(ChatID c, ''email address is not a kindle email address'')])
        \<and> (\<forall>a u err. CommandArguments m \<noteq> [] \<and> ParseAddress e (CommandArguments m) = Inr a
                \<and> HasSuffix (Addr a) ''@kindle.com'' \<and> From m = Some u
                \<and> upsertFails e (UserID u) (CommandArguments m) = Some err
            \<longrightarrow> notices evs =
                  [(ChatID c, ''Error setting Kindle email address, please try again later'')])
        \<and> (\<forall>err. CommandArguments m \<noteq> [] \<and> ParseAddress e (CommandArguments m) = Inl err
            \<longrightarrow> notices evs = [(ChatID c, ''invalid email address: '' @ Error err)])"
    by (intro conjI)
qed

text \<open>
  C8 (as amended): each kind of failure of a document delivery has its one notice,
  whatever error the collaborator returned. When the lookup of the destination fails,
  \<open>handleDocument\<close> returns after "Please set your Kindle email address first ..."; when
  the mime type is not supported, after "Unsupported file type ..."; when the declared
  size is above the ceiling, after "File is too large ..."; when the Fetch step fails
  (one of the two file calls of the Telegram API, the retried GET, or the read of the
  body returns an error), after "Downloading file..." and "Error downloading file,
  please try again later"; when the retried SMTP delivery returns an error, after
  "Downloading file...", "Download successful. Sending file to Kindle..." and "Error
  sending email, please try again later". The notices go to the chat of the update and
  the store is unchanged. In any run the notices are one of seven fixed sequences. For
  \<open>/set_kindle_email\<close> the notice is a fixed string when the argument is empty, when the
  parsed address is not a Kindle address and when the store fails; when
  \<open>mail.ParseAddress\<close> rejects the argument, the notice is "invalid email address: "
  followed by the text of the parser's error.
\<close>

theorem failure_notices:
  "(handleDocument e update w = Some (r, w') \<and> trace w' = trace w @ evs
      \<longrightarrow> (\<exists>c. notices evs \<in> documentOutcomes c))
   \<and> (Message update = Some m \<and> From m = Some u \<and> Chat m = Some c
        \<and> GetKindleEmail e (UserID u) w = Inl err
      \<longrightarrow> (\<exists>wf. handleDocument e update w = Some (Val (), wf) \<and> db wf = db w
            \<and> notices (trace wf) = notices (trace w)
                @ [(ChatID c, ''Please set your Kindle email address first using /set_kindle_email'')]))
   \<and> (Message update = Some m \<and> From m = Some u \<and> Chat m = Some c \<and> Document m = Some doc
        \<and> GetKindleEmail e (UserID u) w = Inr k
        \<and> \<not> lookupBool supportedMimeTypes (MimeType doc)
      \<longrightarrow> (\<exists>wf. handleDocument e update w = Some (Val (), wf) \<and> db wf = db w
            \<and> notices (trace wf) = notices (trace w)
                @ [(ChatID c, ''Unsupported file type. Try sending a PDF, EPUB, or MOBI file'')]))
   \<and> (Message update = Some m \<and> From m = Some u \<and> Chat m = Some c \<and> Document m = Some doc
        \<and> GetKindleEmail e (UserID u) w = Inr k
        \<and> lookupBool supportedMimeTypes (MimeType doc)
        \<and> FileSize doc > MaxFileSize (config e)
      \<longrightarrow> (\<exists>wf. handleDocument e update w = Some (Val (), wf) \<and> db wf = db w
            \<and> notices (trace wf) = notices (trace w)
                @ [(ChatID c, ''File is too large. Maximum file size is 20MB'')]))
   \<and> (passesValidation e update w m u c doc k
        \<and> (tgGetFile e (FileID doc) = Inl err
           \<or> tgGetFile e (FileID doc) = Inr fl \<and> tgGetFileDirectURL e fl = Inl err
           \<or> tgGetFile e (FileID doc) = Inr fl \<and> tgGetFileDirectURL e fl = Inr fileUrl
               \<and> Retry (httpGetOp e fileUrl) (NewExponentialBackOff e) (fetchStart e c doc fl w)
                    = Some (Inl err, w1)
           \<or> tgGetFile e (FileID doc) = Inr fl \<and> tgGetFileDirectURL e fl = Inr fileUrl
               \<and> Retry (httpGetOp e fileUrl) (NewExponentialBackOff e) (fetchStart e c doc fl w)
                    = Some (Inr resp, w1)
               \<and> readErr (LimitReader resp (MaxFileSize (config e))) = Some err)
      \<longrightarrow> (\<exists>wf. handleDocument e update w = Some (Val (), wf) \<and> db wf = db w
            \<and> notices (trace wf) = notices (trace w)
                @ [(ChatID c, ''Downloading file...''),
                   (ChatID c, ''Error downloading file, please try again later'')]))
   \<and> (passesValidation e update w m u c doc k
        \<and> tgGetFile e (FileID doc) = Inr fl \<and> tgGetFileDirectURL e fl = Inr fileUrl
        \<and> Retry (httpGetOp e fileUrl) (NewExponentialBackOff e) (fetchStart e c doc fl w)
             = Some (Inr resp, w1)
        \<and> readErr (LimitReader resp (MaxFileSize (config e))) = None
        \<and> Retry (dialAndSendOp e
               (kindleMail e k doc (content (LimitReader resp (MaxFileSize (config e))))))
             (NewExponentialBackOff e) (transmitStart e c w1) = Some (Inl err, w2)
      \<longrightarrow> (\<exists>wf. handleDocument e update w = Some (Val (), wf) \<and> db wf = db w
            \<and> notices (trace wf) = notices (trace w)
                @ [(ChatID c, ''Downloading file...''),
                   (ChatID c, ''Download successful. Sending file to Kindle...''),
                   (ChatID c, ''Error sending email, please try again later'')]))
   \<and> (setKindleEmailCommand e update w = Some (r, w') \<and> trace w' = trace w @ evs
        \<and> Message update = Some m \<and> Chat m = Some c
      \<longrightarrow> (CommandArguments m = []
            \<longrightarrow> notices evs = [(ChatID c, ''Please provide your Kindle email address'')])
        \<and> (\<forall>a. CommandArguments m \<noteq> [] \<and> ParseAddress e (CommandArguments m) = Inr a
                \<and> \<not> HasSuffix (Addr a) ''@kindle.com''
            \<longrightarrow> notices evs = [(ChatID c, ''email address is not a kindle email address'')])
        \<and> (\<forall>a u err. CommandArguments m \<noteq> [] \<and> ParseAddress e (CommandArguments m) = Inr a
                \<and> HasSuffix (Addr a) ''@kindle.com'' \<and> From m = Some u
                \<and> upsertFails e (UserID u) (CommandArguments m) = Some err
            \<longrightarrow> notices evs =
                  [(ChatID c, ''Error setting Kindle email address, please try again later'')])
        \<and> (\<forall>err. CommandArguments m \<noteq> [] \<and> ParseAddress e (CommandArguments m) = Inl err
            \<longrightarrow> notices evs = [(ChatID c, ''invalid email address: '' @ Error err)]))"
  apply (intro conjI)
  subgoal using handleDocument_notices by blast
  subgoal by (intro impI, elim conjE, rule not_configured_notice)
  subgoal by (intro impI, elim conjE, rule unsupported_type_notice)
  subgoal by (intro impI, elim conjE, rule too_large_notice)
  subgoal by (intro impI, erule conjE, rule fetch_failed_notice)
  subgoal by (intro impI, elim conjE, rule transmit_failed_notice)
  subgoal by (rule setKindleEmail_notices)
  done

lemma gmail_run:
  "setKindleEmailCommand calmEnv (setKindleEmail ''reader@gmail.com'') configuredWorld =
     Some (Val (), configuredWorld\<lparr>trace :=
       [Send 42 ''email address is not a kindle email address'']\<rparr>)"
  by (subst setKindleEmailCommand_run [where m = "commandMessage ''set_kindle_email'' ''reader@gmail.com''"])
     (simp_all add: command_simps parse_gmail)

lemma name_only_run:
  "setKindleEmailCommand calmEnv (setKindleEmail ''John Doe'') configuredWorld =
     Some (Val (), configuredWorld\<lparr>trace :=
       [Send 42 ''invalid email address: mail: no angle-addr'']\<rparr>)"
  by (subst setKindleEmailCommand_run [where m = "commandMessage ''set_kindle_email'' ''John Doe''"])
     (simp_all add: command_simps parse_name_only)

lemma unclosed_run:
  "setKindleEmailCommand calmEnv (setKindleEmail ''<a@kindle.com'') configuredWorld =
     Some (Val (), configuredWorld\<lparr>trace :=
       [Send 42 ''invalid email address: mail: unclosed angle-addr'']\<rparr>)"
  by (subst setKindleEmailCommand_run [where m = "commandMessage ''set_kindle_email'' ''<a@kindle.com''"])
     (simp_all add: command_simps parse_unclosed)

theorem failure_notices_witness:
  "smtpDialAndSend refusingEnv 1 pdfEmail = (Some (ErrText ''connection refused''), 1)
   \<and> (\<exists>wf. handleDocument refusingEnv \<lparr>Message = Some (documentMessage pdfDocument)\<rparr>
               configuredWorld = Some (Val (), wf)
          \<and> db wf = db configuredWorld
          \<and> notices (trace wf) =
               [(42, ''Downloading file...''),
                (42, ''Download successful. Sending file to Kindle...''),
                (42, ''Error sending email, please try again later'')])
   \<and> setKindleEmailCommand calmEnv (setKindleEmail ''reader@gmail.com'') configuredWorld =
     Some (Val (), configuredWorld\<lparr>trace :=
       [Send 42 ''email address is not a kindle email address'']\<rparr>)
   \<and> ParseAddress calmEnv ''reader@gmail.com'' = Inr \<lparr>Name = [], Addr = ''reader@gmail.com''\<rparr>
   \<and> \<not> HasSuffix ''reader@gmail.com'' ''@kindle.com''
   \<and> notices [Send 42 ''email address is not a kindle email address''] =
        [(42, ''email address is not a kindle email address'')]"
proof -
  let ?m = "commandMessage ''set_kindle_email'' ''reader@gmail.com''"
  let ?evs = "[Send 42 ''email address is not a kindle email address'']"
  have p: "ParseAddress calmEnv ''reader@gmail.com'' = Inr \<lparr>Name = [], Addr = ''reader@gmail.com''\<rparr>"
    by (simp add: calmEnv_def parse_gmail)
  have s: "\<not> HasSuffix ''reader@gmail.com'' ''@kindle.com''"
    by (simp add: HasSuffix_def)
  have pre: "setKindleEmailCommand calmEnv (setKindleEmail ''reader@gmail.com'') configuredWorld =
        Some (Val (), configuredWorld\<lparr>trace := ?evs\<rparr>)
      \<and> trace (configuredWorld\<lparr>trace := ?evs\<rparr>) = trace configuredWorld @ ?evs
      \<and> Message (setKindleEmail ''reader@gmail.com'') = Some ?m
      \<and> Chat ?m = Some \<lparr>ChatID = 42\<rparr>"
    by (simp add: gmail_run) (simp add: setKindleEmail_def commandMessage_def configuredWorld_def)
  from failure_notices [of calmEnv "setKindleEmail ''reader@gmail.com''" configuredWorld
      "Val ()" "configuredWorld\<lparr>trace := ?evs\<rparr>" ?evs ?m _ "\<lparr>ChatID = 42\<rparr>"] pre p s
  have g: "notices ?evs = [(42, ''email address is not a kindle email address'')]"
    by (simp add: commandMessage_def)
  let ?u = "\<lparr>UserID = 7, FirstName = ''Ada''\<rparr>"
  let ?c = "\<lparr>ChatID = 42\<rparr>"
  let ?upd = "\<lparr>Message = Some (documentMessage pdfDocument)\<rparr>"
  let ?url = "''https://files.example/f1''"
  let ?resp = "\<lparr>content = [1, 2, 3 :: byte], readErr = None\<rparr>"
  let ?s1 = "fetchStart refusingEnv ?c pdfDocument ''f1'' configuredWorld"
  let ?w1 = "snd (httpGetOp refusingEnv ?url ?s1)"
  let ?mail = "kindleMail refusingEnv ''x@kindle.com'' pdfDocument
      (content (LimitReader ?resp (MaxFileSize (config refusingEnv))))"
  let ?s2 = "transmitStart refusingEnv ?c ?w1"
  let ?refused = "DialAndSend pdfEmail (Some (ErrText ''connection refused''))"
  let ?w2 = "?s2\<lparr>now := 10, trace := trace ?s2 @ [?refused, ?refused, ?refused]\<rparr>"
  note defs = refusingEnv_def calmEnv_def mainConfig_def pdfDocument_def configuredWorld_def
  have v: "passesValidation refusingEnv ?upd configuredWorld (documentMessage pdfDocument)
      ?u ?c pdfDocument ''x@kindle.com''"
    by (simp add: passesValidation_def documentMessage_def GetKindleEmail_def lookupBool_def
          supportedMimeTypes_def defs)
  have f: "tgGetFile refusingEnv (FileID pdfDocument) = Inr ''f1''"
    "tgGetFileDirectURL refusingEnv ''f1'' = Inr ?url"
    "readErr (LimitReader ?resp (MaxFileSize (config refusingEnv))) = None"
    by (simp_all add: LimitReader_def defs)
  have get: "Retry (httpGetOp refusingEnv ?url) (NewExponentialBackOff refusingEnv) ?s1
      = Some (Inr ?resp, ?w1)"
    by (simp add: Retry_first_success httpGetOp_def defs)
  have smtp: "Retry (dialAndSendOp refusingEnv ?mail) (NewExponentialBackOff refusingEnv) ?s2
      = Some (Inl (ErrText ''connection refused''), ?w2)"
    by (simp add: Retry_def RetryLoop.simps dialAndSendOp_def NextBackOff_def Sleep_def
          httpGetOp_def transmitStart_def fetchStart_def kindleMail_def LimitReader_def
          pdfEmail_def defs)
  note tf = failure_notices [where e = refusingEnv and update = ?upd and w = configuredWorld
      and m = "documentMessage pdfDocument" and u = ?u and c = ?c and doc = pdfDocument
      and k = "''x@kindle.com''" and fl = "''f1''" and fileUrl = ?url and resp = ?resp
      and ?w1.0 = ?w1 and ?w2.0 = ?w2 and err = "ErrText ''connection refused''",
      THEN conjunct2, THEN conjunct2, THEN conjunct2, THEN conjunct2, THEN conjunct2,
      THEN conjunct1, THEN mp]
  have "\<exists>wf. handleDocument refusingEnv ?upd configuredWorld = Some (Val (), wf)
          \<and> db wf = db configuredWorld
          \<and> notices (trace wf) = notices (trace configuredWorld) @
               [(ChatID ?c, ''Downloading file...''),
                (ChatID ?c, ''Download successful. Sending file to Kindle...''),
                (ChatID ?c, ''Error sending email, please try again later'')]"
    by (rule tf) (intro conjI; rule v f get smtp)
  moreover have "smtpDialAndSend refusingEnv 1 pdfEmail = (Some (ErrText ''connection refused''), 1)"
    by (simp add: refusingEnv_def)
  ultimately show ?thesis using g gmail_run p s
    by (simp add: configuredWorld_def)
qed

text \<open>
  C8 as stated fails for the invalid destination address: two arguments that the parser
  rejects give two different notices, each with the parser's error text.
\<close>

theorem failure_notices_counterexample:
  "setKindleEmailCommand calmEnv (setKindleEmail ''John Doe'') configuredWorld =
     Some (Val (), configuredWorld\<lparr>trace :=
       [Send 42 ''invalid email address: mail: no angle-addr'']\<rparr>)
   \<and> setKindleEmailCommand calmEnv (setKindleEmail ''<a@kindle.com'') configuredWorld =
     Some (Val (), configuredWorld\<lparr>trace :=
       [Send 42 ''invalid email address: mail: unclosed angle-addr'']\<rparr>)
   \<and> ParseAddress calmEnv ''John Doe'' = Inl (ErrText ''mail: no angle-addr'')
   \<and> ParseAddress calmEnv ''<a@kindle.com'' = Inl (ErrText ''mail: unclosed angle-addr'')"
  by (simp add: name_only_run unclosed_run) (simp add: calmEnv_def parse_name_only parse_unclosed)


section \<open>Updates with message, sender and chat\<close>

text \<open>
  With message, sender and chat present, no nil pointer is dereferenced:
  \<open>handleUpdate\<close> returns normally whenever it returns.
\<close>

lemma handleDocument_present_returns:
  assumes p: "Message update = Some m" "From m = Some u" "Chat m = Some c" "Document m = Some doc"
    and run: "handleDocument e update w = Some (r, w')"
  shows "r = Val ()"
proof (cases "GetKindleEmail e (UserID u) w")
  case (Inl err)
  with p run show ?thesis
    by (simp add: handleDocument_def bnd_fromID bnd_chatID sendMessage_run)
next
  case (Inr k)
  show ?thesis
  proof (cases "lookupBool supportedMimeTypes (MimeType doc) \<and> \<not> FileSize doc > MaxFileSize (config e)")
    case False
    with p Inr run show ?thesis
      by (auto simp: handleDocument_def bnd_fromID bnd_chatID bnd_document sendMessage_run
            split: if_splits)
  next
    case True
    with p Inr run show ?thesis
      by (elim conjE) (cases rule: handleDocument_valid_run, simp_all)
  qed
qed

lemma handleUpdate_present_returns:
  assumes p: "Message update = Some m" "From m = Some u" "Chat m = Some c"
    and run: "handleUpdate e update w = Some (r, w')"
  shows "r = Val ()"
proof -
  have "r' = Val ()" if "route e update w = Some (r', w')" for r' w'
  proof (cases "Document m")
    case (Some doc)
    with that p show ?thesis
      using handleDocument_present_returns [OF p Some]
      by (simp add: route_def)
  next
    case None
    with that p show ?thesis
      by (cases "validateEmail (ParseAddress e) (CommandArguments m)")
         (auto simp: route_def handleCommand_def handleUnsupportedMessage_def startCommand_def
            helpCommand_def invalidCommand_def setKindleEmailCommand_run bnd_chatID emit_def
            sendMessage_run split: if_splits option.splits)
  qed
  with run show ?thesis
    by (auto simp: handleUpdate_def split: option.splits prod.splits res.splits)
qed

end
